theory Spec2Isabelle
  imports Main "HOL-Library.AList"
begin

section \<open>Transaction ledger (be/src/olap/txn\_manager.cpp)\<close>

subsection \<open>Data model\<close>

text \<open>
  Identifiers are 64-bit signed integers in the source. The ledger only compares them
  (and reduces a transaction id to a shard index), so they are modelled as \<open>int\<close>.
\<close>

type_synonym TPartitionId = int
type_synonym TTransactionId = int
type_synonym TTabletId = int
type_synonym SchemaHash = int
type_synonym TabletUid = "int \<times> int"
type_synonym PUniqueId = "int \<times> int"
type_synonym Version = "int \<times> int"
type_synonym RowsetId = int
type_synonym TxnKey = "TPartitionId \<times> TTransactionId"

text \<open>The status codes returned by the ledger and by the compaction scheduler.\<close>

datatype Status =
    OK
  | TOO_MANY_TRANSACTIONS
  | ROWSET_INVALID
  | PUSH_TRANSACTION_ALREADY_EXIST
  | ROWSET_SAVE_FAILED
  | TRANSACTION_NOT_EXIST
  | ROWSET_ADD_TO_BINLOG_FAILED
  | TRANSACTION_ALREADY_COMMITTED
  | AlreadyExist
  | InternalError
  | IOError

datatype TabletInfo =
  TabletInfo (tablet_id: TTabletId) (schema_hash: SchemaHash) (tablet_uid: TabletUid)

text \<open>
  Modelled from the spec: the rowset class (olap/rowset/rowset.h) is not among the
  sources. A rowset "has a unique id and a version once published". Rowsets are shared
  objects (\<open>RowsetSharedPtr\<close>): the ledger stores a pointer, so rowsets live in a store
  indexed by address and a null pointer is \<open>None\<close>.
\<close>

record Rowset =
  rowset_id :: RowsetId
  version :: Version

text \<open>
  Modelled from the spec: \<open>Rowset::make_visible\<close> is not among the sources; publish
  step (1) is "mark the rowset visible at \<open>version\<close>", and the comment in
  \<open>publish_txn\<close> reads "rowset is already set version here, memory is changed".
\<close>

definition make_visible :: "Version \<Rightarrow> Rowset \<Rightarrow> Rowset" where
  "make_visible v r = r\<lparr>version := v\<rparr>"

text \<open>
  Modelled from the spec: \<open>TabletTxnInfo\<close> is declared in txn\_manager.h, which is not
  among the sources. The fields are those of the spec's TabletTransactionState, plus the
  \<open>ingest\<close> flag that \<open>prepare_txn\<close> passes to the constructor.
\<close>

record TabletTxnInfo =
  load_id :: PUniqueId
  rowset :: "nat option"
  unique_key_merge_on_write :: bool
  delete_bitmap :: "TTabletId option"
  rowset_ids :: "RowsetId set"
  creation_time :: int
  ingest :: bool

text \<open>
  The constructor \<open>TabletTxnInfo(load_id, rowset, ingest)\<close>; the two-argument form
  used by \<open>commit_txn\<close> leaves \<open>ingest\<close> false. The creation time is the clock reading
  (\<open>UnixSeconds()\<close>) at construction, an input of the model.
\<close>

definition new_TabletTxnInfo :: "int \<Rightarrow> PUniqueId \<Rightarrow> nat option \<Rightarrow> bool \<Rightarrow> TabletTxnInfo" where
  "new_TabletTxnInfo now lid rs ing =
     \<lparr>load_id = lid, rowset = rs, unique_key_merge_on_write = False,
      delete_bitmap = None, rowset_ids = {}, creation_time = now, ingest = ing\<rparr>"

text \<open>
  The maps of one shard: \<open>txn_tablet_map_t\<close> maps a transaction key to a map from
  tablets to their transaction state, \<open>txn_partition_map_t\<close> maps a transaction id to
  its set of partitions. Both are association lists (the key of an entry is looked up
  with \<open>map_of\<close>); \<open>force_rollback_tablet_related_txns\<close> iterates over the first.
\<close>

type_synonym tablet_map_t = "(TabletInfo \<times> TabletTxnInfo) list"
type_synonym txn_tablet_map_t = "(TxnKey \<times> tablet_map_t) list"
type_synonym txn_partition_map_t = "(TTransactionId \<times> TPartitionId set) list"

text \<open>The calls to collaborators, recorded in the order in which they are made.\<close>

datatype effect =
    MakeVisible nat Version
  | CreateTransientRowsetWriter nat
  | UpdateDeleteBitmap nat
  | FlushTransientRowset
  | MergeRowsetMeta nat
  | EraseSegment RowsetId
  | TabletSaveMeta
  | AddToBinlog nat
  | SaveRowsetMeta nat TabletUid RowsetId
  | RemoveRowsetMeta nat TabletUid RowsetId
  | AddUnusedRowset nat

text \<open>
  The state: the arrays \<open>_txn_tablet_maps\<close> and \<open>_txn_partition_maps\<close> of
  \<open>_txn_map_shard_size\<close> shards, the store of rowset objects the ledger points into, the
  persistent rowset-metadata stores (\<open>OlapMeta\<close>, by address) and the trace of
  collaborator calls.
\<close>

record engine =
  txn_map_shard_size :: nat
  txn_tablet_maps :: "nat \<Rightarrow> txn_tablet_map_t"
  txn_partition_maps :: "nat \<Rightarrow> txn_partition_map_t"
  rowsets :: "nat \<Rightarrow> Rowset"
  olap_meta :: "nat \<Rightarrow> ((TabletUid \<times> RowsetId) \<Rightarrow> Rowset option)"
  effects :: "effect list"

text \<open>The constructor \<open>TxnManager(txn_map_shard_size, txn_shard_size)\<close>: empty shards.\<close>

definition new_TxnManager ::
  "nat \<Rightarrow> (nat \<Rightarrow> Rowset) \<Rightarrow> (nat \<Rightarrow> ((TabletUid \<times> RowsetId) \<Rightarrow> Rowset option)) \<Rightarrow> engine" where
  "new_TxnManager n heap stores =
     \<lparr>txn_map_shard_size = n, txn_tablet_maps = (\<lambda>_. []), txn_partition_maps = (\<lambda>_. []),
      rowsets = heap, olap_meta = stores, effects = []\<rparr>"

subsection \<open>Shard selection and the partition index\<close>

text \<open>
  Modelled from the spec: \<open>_get_txn_tablet_map\<close> and \<open>_get_txn_partition_map\<close> are
  defined in txn\_manager.h, which is not among the sources; "shard index =
  hash(transaction\_id) mod S".
\<close>

definition shard_index :: "nat \<Rightarrow> TTransactionId \<Rightarrow> nat" where
  "shard_index n transaction_id = nat (transaction_id mod int n)"

definition get_txn_tablet_map :: "engine \<Rightarrow> TTransactionId \<Rightarrow> txn_tablet_map_t" where
  "get_txn_tablet_map s transaction_id =
     txn_tablet_maps s (shard_index (txn_map_shard_size s) transaction_id)"

definition get_txn_partition_map :: "engine \<Rightarrow> TTransactionId \<Rightarrow> txn_partition_map_t" where
  "get_txn_partition_map s transaction_id =
     txn_partition_maps s (shard_index (txn_map_shard_size s) transaction_id)"

definition set_txn_tablet_map :: "TTransactionId \<Rightarrow> txn_tablet_map_t \<Rightarrow> engine \<Rightarrow> engine" where
  "set_txn_tablet_map transaction_id m s =
     s\<lparr>txn_tablet_maps :=
         (txn_tablet_maps s)(shard_index (txn_map_shard_size s) transaction_id := m)\<rparr>"

definition set_txn_partition_map ::
  "TTransactionId \<Rightarrow> txn_partition_map_t \<Rightarrow> engine \<Rightarrow> engine" where
  "set_txn_partition_map transaction_id m s =
     s\<lparr>txn_partition_maps :=
         (txn_partition_maps s)(shard_index (txn_map_shard_size s) transaction_id := m)\<rparr>"

text \<open>\<open>size()\<close> of a map: the number of its keys.\<close>

definition map_size :: "('k \<times> 'v) list \<Rightarrow> nat" where
  "map_size m = length (remdups (map fst m))"

text \<open>
  \<open>_insert_txn_partition_map_unlocked\<close>: create the transaction's (empty) partition set
  if it has none, then insert the partition.
\<close>

definition insert_txn_partition_map_unlocked ::
  "TTransactionId \<Rightarrow> TPartitionId \<Rightarrow> engine \<Rightarrow> engine" where
  "insert_txn_partition_map_unlocked transaction_id partition_id s =
     (let txn_partition_map = get_txn_partition_map s transaction_id;
          m1 = (case map_of txn_partition_map transaction_id of
                  None \<Rightarrow> AList.update transaction_id {} txn_partition_map
                | Some _ \<Rightarrow> txn_partition_map)
      in set_txn_partition_map transaction_id
           (AList.map_entry transaction_id (insert partition_id) m1) s)"

text \<open>
  \<open>_clear_txn_partition_map_unlocked\<close>: erase the partition from the transaction's set
  and drop the transaction when its set becomes empty.
\<close>

definition clear_txn_partition_map_unlocked ::
  "TTransactionId \<Rightarrow> TPartitionId \<Rightarrow> engine \<Rightarrow> engine" where
  "clear_txn_partition_map_unlocked transaction_id partition_id s =
     (let txn_partition_map = get_txn_partition_map s transaction_id
      in case map_of txn_partition_map transaction_id of
           None \<Rightarrow> s
         | Some ps \<Rightarrow>
             if ps - {partition_id} = {}
             then set_txn_partition_map transaction_id
                    (AList.delete transaction_id txn_partition_map) s
             else set_txn_partition_map transaction_id
                    (AList.update transaction_id (ps - {partition_id}) txn_partition_map) s)"

text \<open>
  \<open>txn_tablet_map[key][tablet_info] = load_info\<close>: \<open>operator[]\<close> creates the tablet map
  of the key when it is absent.
\<close>

definition assign_load_info ::
  "TxnKey \<Rightarrow> TabletInfo \<Rightarrow> TabletTxnInfo \<Rightarrow> txn_tablet_map_t \<Rightarrow> txn_tablet_map_t" where
  "assign_load_info key tablet_info load_info txn_tablet_map =
     (let m1 = (case map_of txn_tablet_map key of
                  None \<Rightarrow> AList.update key [] txn_tablet_map
                | Some _ \<Rightarrow> txn_tablet_map)
      in AList.map_entry key (AList.update tablet_info load_info) m1)"

text \<open>
  The closing block shared by \<open>prepare_txn\<close> (step 3) and \<open>commit_txn\<close>: store the
  entry under the key and register the partition in the partition index.
\<close>

definition install_load_info ::
  "TPartitionId \<Rightarrow> TTransactionId \<Rightarrow> TabletInfo \<Rightarrow> TabletTxnInfo \<Rightarrow> engine \<Rightarrow> engine" where
  "install_load_info partition_id transaction_id tablet_info load_info s =
     insert_txn_partition_map_unlocked transaction_id partition_id
       (set_txn_tablet_map transaction_id
          (assign_load_info (partition_id, transaction_id) tablet_info load_info
             (get_txn_tablet_map s transaction_id)) s)"

text \<open>
  The closing block shared by \<open>publish_txn\<close> (step 5), \<open>rollback_txn\<close> and
  \<open>delete_txn\<close>, entered with the key present: erase the tablet from the key's tablet map
  and, when that map becomes empty, erase the key and clear the partition index.
\<close>

definition erase_tablet_info ::
  "TPartitionId \<Rightarrow> TTransactionId \<Rightarrow> TabletInfo \<Rightarrow> tablet_map_t \<Rightarrow> engine \<Rightarrow> engine" where
  "erase_tablet_info partition_id transaction_id tablet_info tablet_map s =
     (let key = (partition_id, transaction_id);
          txn_tablet_map = get_txn_tablet_map s transaction_id;
          tablet_map' = AList.delete tablet_info tablet_map
      in if tablet_map' = []
         then clear_txn_partition_map_unlocked transaction_id partition_id
                (set_txn_tablet_map transaction_id (AList.delete key txn_tablet_map) s)
         else set_txn_tablet_map transaction_id
                (AList.update key tablet_map' txn_tablet_map) s)"

text \<open>
  The entry of a (key, tablet) pair, if any: the two nested \<open>find\<close> calls with which
  \<open>prepare_txn\<close>, \<open>commit_txn\<close> and \<open>publish_txn\<close> start.
\<close>

definition find_load_info :: "engine \<Rightarrow> TxnKey \<Rightarrow> TabletInfo \<Rightarrow> TabletTxnInfo option" where
  "find_load_info s key tablet_info =
     (case map_of (get_txn_tablet_map s (snd key)) key of
        None \<Rightarrow> None
      | Some tablet_map \<Rightarrow> map_of tablet_map tablet_info)"

definition add_effect :: "effect \<Rightarrow> engine \<Rightarrow> engine" where
  "add_effect e s = s\<lparr>effects := effects s @ [e]\<rparr>"

text \<open>
  Modelled from the spec: \<open>RowsetMetaManager\<close> is not among the sources. The metadata
  store is a "durable key-value persistence keyed by tablet identity + rowset id";
  \<open>save\<close> returns a result (the argument \<open>st\<close>, an input of the model) and stores the
  rowset's metadata when it succeeds; \<open>remove\<close> deletes the key.
\<close>

definition RowsetMetaManager_save ::
  "nat \<Rightarrow> TabletUid \<Rightarrow> RowsetId \<Rightarrow> Rowset \<Rightarrow> Status \<Rightarrow> engine \<Rightarrow> engine" where
  "RowsetMetaManager_save meta uid rid pb st s =
     (let s1 = add_effect (SaveRowsetMeta meta uid rid) s
      in if st = OK
         then s1\<lparr>olap_meta := (olap_meta s1)(meta := (olap_meta s1 meta)((uid, rid) \<mapsto> pb))\<rparr>
         else s1)"

definition RowsetMetaManager_remove :: "nat \<Rightarrow> TabletUid \<Rightarrow> RowsetId \<Rightarrow> engine \<Rightarrow> engine" where
  "RowsetMetaManager_remove meta uid rid s =
     (let s1 = add_effect (RemoveRowsetMeta meta uid rid) s
      in s1\<lparr>olap_meta := (olap_meta s1)(meta := (olap_meta s1 meta)((uid, rid) := None))\<rparr>)"

subsection \<open>prepare\_txn\<close>

text \<open>
  \<open>max_running\<close> is \<open>config::max_runnings_transactions_per_txn_map\<close> (declared outside
  the sources, taken as a parameter), \<open>now\<close> the clock reading.
\<close>

definition prepare_txn ::
  "nat \<Rightarrow> int \<Rightarrow> TPartitionId \<Rightarrow> TTransactionId \<Rightarrow> TTabletId \<Rightarrow> SchemaHash \<Rightarrow> TabletUid \<Rightarrow>
   PUniqueId \<Rightarrow> bool \<Rightarrow> engine \<Rightarrow> Status \<times> engine" where
  "prepare_txn max_running now partition_id transaction_id tid shash uid lid ing s =
     (let key = (partition_id, transaction_id);
          tablet_info = TabletInfo tid shash uid
      in if (case find_load_info s key tablet_info of
               None \<Rightarrow> False
             | Some load_info \<Rightarrow>
                 fst (load_id load_info) = fst lid \<and> snd (load_id load_info) = snd lid \<and>
                 rowset load_info \<noteq> None)
         then (OK, s)
         else if map_size (get_txn_partition_map s transaction_id) > max_running
         then (TOO_MANY_TRANSACTIONS, s)
         else (OK,
               install_load_info partition_id transaction_id tablet_info
                 (new_TabletTxnInfo now lid None ing) s))"

subsection \<open>rollback\_txn\<close>

definition rollback_txn ::
  "TPartitionId \<Rightarrow> TTransactionId \<Rightarrow> TTabletId \<Rightarrow> SchemaHash \<Rightarrow> TabletUid \<Rightarrow> engine \<Rightarrow>
   Status \<times> engine" where
  "rollback_txn partition_id transaction_id tid shash uid s =
     (let key = (partition_id, transaction_id);
          tablet_info = TabletInfo tid shash uid
      in case map_of (get_txn_tablet_map s transaction_id) key of
           None \<Rightarrow> (OK, s)
         | Some tablet_map \<Rightarrow>
             if (case map_of tablet_map tablet_info of
                   None \<Rightarrow> False
                 | Some load_info \<Rightarrow> rowset load_info \<noteq> None)
             then (TRANSACTION_ALREADY_COMMITTED, s)
             else (OK, erase_tablet_info partition_id transaction_id tablet_info tablet_map s))"

subsection \<open>commit\_txn\<close>

text \<open>
  Modelled from the spec: the tablet class is not among the sources. Of a tablet the
  ledger and the scheduler read its id, its data directory and three flags.
\<close>

record Tablet =
  tablet_tablet_id :: TTabletId
  tablet_data_dir :: nat
  is_enable_binlog :: bool
  enable_unique_key_merge_on_write :: bool
  disable_auto_compaction :: bool

text \<open>
  The \<open>do { ... } while (false)\<close> block of \<open>commit_txn\<close>: \<open>Some st\<close> when the block
  returns \<open>st\<close>, \<open>None\<close> when it is left by \<open>break\<close>.
\<close>

definition commit_find_duplicate ::
  "engine \<Rightarrow> TxnKey \<Rightarrow> TabletInfo \<Rightarrow> PUniqueId \<Rightarrow> nat \<Rightarrow> Status option" where
  "commit_find_duplicate s key tablet_info lid rowset_ptr =
     (case find_load_info s key tablet_info of
        None \<Rightarrow> None
      | Some load_info \<Rightarrow>
          (case rowset load_info of
             None \<Rightarrow> None
           | Some r \<Rightarrow>
               if fst (load_id load_info) = fst lid \<and> snd (load_id load_info) = snd lid \<and>
                  rowset_id (rowsets s r) = rowset_id (rowsets s rowset_ptr)
               then Some OK
               else if fst (load_id load_info) = fst lid \<and>
                       snd (load_id load_info) = snd lid \<and>
                       rowset_id (rowsets s r) \<noteq> rowset_id (rowsets s rowset_ptr)
               then Some PUSH_TRANSACTION_ALREADY_EXIST
               else None))"

text \<open>
  \<open>commit_txn\<close>. The result is \<open>None\<close> when \<open>LOG(FATAL)\<close> aborts the process.
  \<open>save_status\<close> is the result of \<open>RowsetMetaManager::save\<close>, \<open>recovered\<close> the tablet
  found by the tablet manager in recovery mode, \<open>now\<close> the clock reading. \<open>meta\<close> is
  dereferenced by \<open>save\<close>, so it is an address, not a nullable pointer.
\<close>

definition commit_txn ::
  "Status \<Rightarrow> Tablet option \<Rightarrow> int \<Rightarrow> nat \<Rightarrow> TPartitionId \<Rightarrow> TTransactionId \<Rightarrow> TTabletId \<Rightarrow>
   SchemaHash \<Rightarrow> TabletUid \<Rightarrow> PUniqueId \<Rightarrow> nat option \<Rightarrow> bool \<Rightarrow> engine \<Rightarrow>
   (Status \<times> engine) option" where
  "commit_txn save_status recovered now meta partition_id transaction_id tid shash uid lid
     rowset_ptr is_recovery s =
     (if partition_id < 1 \<or> transaction_id < 1 \<or> tid < 1 then None
      else
        let key = (partition_id, transaction_id);
            tablet_info = TabletInfo tid shash uid
        in case rowset_ptr of
             None \<Rightarrow> Some (ROWSET_INVALID, s)
           | Some rp \<Rightarrow>
               (case commit_find_duplicate s key tablet_info lid rp of
                  Some st \<Rightarrow> Some (st, s)
                | None \<Rightarrow>
                    let s1 = (if \<not> is_recovery
                              then RowsetMetaManager_save meta uid (rowset_id (rowsets s rp))
                                     (rowsets s rp) save_status s
                              else s)
                    in if \<not> is_recovery \<and> save_status \<noteq> OK
                       then Some (ROWSET_SAVE_FAILED, s1)
                       else
                         let load_info0 = new_TabletTxnInfo now lid (Some rp) False;
                             load_info =
                               (case (if is_recovery then recovered else None) of
                                  None \<Rightarrow> load_info0
                                | Some tablet \<Rightarrow>
                                    if enable_unique_key_merge_on_write tablet
                                    then load_info0\<lparr>unique_key_merge_on_write := True,
                                           delete_bitmap := Some (tablet_tablet_id tablet)\<rparr>
                                    else load_info0)
                         in Some (OK,
                              install_load_info partition_id transaction_id tablet_info
                                load_info s1)))"

subsection \<open>set\_txn\_related\_delete\_bitmap\<close>

text \<open>
  The seventh operation that writes to the ledger: it sets three fields of an existing
  entry and touches neither the entry's rowset nor the partition index. A missing key
  is logged and the call returns. The result is \<open>None\<close> when the key is present and
  the tablet has no entry under it: the \<open>DCHECK\<close> fails, and without it the end
  iterator is dereferenced.
\<close>

definition set_txn_related_delete_bitmap ::
  "TPartitionId \<Rightarrow> TTransactionId \<Rightarrow> TTabletId \<Rightarrow> SchemaHash \<Rightarrow> TabletUid \<Rightarrow> bool \<Rightarrow>
   TTabletId option \<Rightarrow> RowsetId set \<Rightarrow> engine \<Rightarrow> engine option" where
  "set_txn_related_delete_bitmap partition_id transaction_id tid shash uid merge_on_write bitmap
     ids s =
     (let key = (partition_id, transaction_id);
          tablet_info = TabletInfo tid shash uid;
          txn_tablet_map = get_txn_tablet_map s transaction_id
      in case map_of txn_tablet_map key of
           None \<Rightarrow> Some s
         | Some tablet_map \<Rightarrow>
             (case map_of tablet_map tablet_info of
                None \<Rightarrow> None
              | Some load_info \<Rightarrow>
                  Some (set_txn_tablet_map transaction_id
                          (AList.update key
                             (AList.update tablet_info
                                (load_info\<lparr>unique_key_merge_on_write := merge_on_write,
                                   delete_bitmap := bitmap, rowset_ids := ids\<rparr>)
                                tablet_map)
                             txn_tablet_map) s)))"

subsection \<open>publish\_txn\<close>

text \<open>
  The results of the collaborators during one call of \<open>publish_txn\<close>: the tablet found
  by the tablet manager (\<open>None\<close> for a null pointer) and the statuses returned by
  \<open>update_delete_bitmap\<close>, \<open>flush\<close>, \<open>add_to_binlog\<close> and \<open>RowsetMetaManager::save\<close>.
\<close>

record publish_io =
  io_get_tablet :: "Tablet option"
  io_update_delete_bitmap :: Status
  io_is_partial_update :: bool
  io_flush :: Status
  io_add_to_binlog :: Status
  io_save :: Status

text \<open>Step 2 after \<open>make_visible\<close>: the merge-on-write branch.\<close>

definition publish_update_delete_bitmap :: "publish_io \<Rightarrow> nat \<Rightarrow> engine \<Rightarrow> Status \<times> engine" where
  "publish_update_delete_bitmap io r s =
     (let s1 = add_effect (UpdateDeleteBitmap r) (add_effect (CreateTransientRowsetWriter r) s)
      in if io_update_delete_bitmap io \<noteq> OK then (io_update_delete_bitmap io, s1)
         else if io_is_partial_update io
         then (let s2 = add_effect FlushTransientRowset s1
               in if io_flush io \<noteq> OK then (io_flush io, s2)
                  else (OK, add_effect TabletSaveMeta
                              (add_effect (EraseSegment (rowset_id (rowsets s2 r)))
                                 (add_effect (MergeRowsetMeta r) s2))))
         else (OK, add_effect TabletSaveMeta s1))"

text \<open>Step 5: remove the tablet from the transaction's tablet map.\<close>

definition publish_remove ::
  "TPartitionId \<Rightarrow> TTransactionId \<Rightarrow> TabletInfo \<Rightarrow> engine \<Rightarrow> engine" where
  "publish_remove partition_id transaction_id tablet_info s =
     (case map_of (get_txn_tablet_map s transaction_id) (partition_id, transaction_id) of
        None \<Rightarrow> s
      | Some tablet_map \<Rightarrow> erase_tablet_info partition_id transaction_id tablet_info tablet_map s)"

definition publish_txn ::
  "publish_io \<Rightarrow> nat \<Rightarrow> TPartitionId \<Rightarrow> TTransactionId \<Rightarrow> TTabletId \<Rightarrow> SchemaHash \<Rightarrow>
   TabletUid \<Rightarrow> Version \<Rightarrow> engine \<Rightarrow> Status \<times> engine" where
  "publish_txn io meta partition_id transaction_id tid shash uid ver s =
     (case io_get_tablet io of
        None \<Rightarrow> (OK, s)
      | Some tablet \<Rightarrow>
         (let key = (partition_id, transaction_id);
              tablet_info = TabletInfo tid shash uid
          in case find_load_info s key tablet_info of
               None \<Rightarrow> (TRANSACTION_NOT_EXIST, s)
             | Some tablet_txn_info \<Rightarrow>
                 (case rowset tablet_txn_info of
                    None \<Rightarrow> (TRANSACTION_NOT_EXIST, s)
                  | Some r \<Rightarrow>
                      let s1 = add_effect (MakeVisible r ver)
                                 (s\<lparr>rowsets := (rowsets s)(r := make_visible ver (rowsets s r))\<rparr>);
                          step2 = (if unique_key_merge_on_write tablet_txn_info
                                   then publish_update_delete_bitmap io r s1
                                   else (OK, s1));
                          s2 = snd step2
                      in if fst step2 \<noteq> OK then (fst step2, s2)
                         else
                           let enable_binlog = is_enable_binlog tablet;
                               s3 = (if enable_binlog then add_effect (AddToBinlog r) s2 else s2)
                           in if enable_binlog \<and> io_add_to_binlog io \<noteq> OK
                              then (ROWSET_ADD_TO_BINLOG_FAILED, s3)
                              else
                                let s4 = RowsetMetaManager_save meta uid
                                           (rowset_id (rowsets s3 r)) (rowsets s3 r) (io_save io) s3
                                in if io_save io \<noteq> OK then (ROWSET_SAVE_FAILED, s4)
                                   else (io_save io,
                                         publish_remove partition_id transaction_id
                                           tablet_info s4))))"

subsection \<open>delete\_txn\<close>

text \<open>\<open>meta\<close> is a nullable pointer here: the code tests it.\<close>

definition delete_txn ::
  "nat option \<Rightarrow> TPartitionId \<Rightarrow> TTransactionId \<Rightarrow> TTabletId \<Rightarrow> SchemaHash \<Rightarrow> TabletUid \<Rightarrow>
   engine \<Rightarrow> Status \<times> engine" where
  "delete_txn meta partition_id transaction_id tid shash uid s =
     (let key = (partition_id, transaction_id);
          tablet_info = TabletInfo tid shash uid
      in case map_of (get_txn_tablet_map s transaction_id) key of
           None \<Rightarrow> (TRANSACTION_NOT_EXIST, s)
         | Some tablet_map \<Rightarrow>
             (case (case map_of tablet_map tablet_info of
                      None \<Rightarrow> None
                    | Some load_info \<Rightarrow> rowset load_info, meta) of
                (Some r, Some m) \<Rightarrow>
                  if fst (version (rowsets s r)) > 0
                  then (TRANSACTION_ALREADY_COMMITTED, s)
                  else (OK,
                        erase_tablet_info partition_id transaction_id tablet_info tablet_map
                          (add_effect (AddUnusedRowset r)
                             (RowsetMetaManager_remove m uid (rowset_id (rowsets s r)) s)))
              | _ \<Rightarrow>
                  (OK, erase_tablet_info partition_id transaction_id tablet_info tablet_map s)))"

subsection \<open>force\_rollback\_tablet\_related\_txns\<close>

text \<open>
  The first half of the loop body: when the tablet has an entry with a rowset and
  \<open>meta\<close> is not null, the rowset's metadata is removed from the store.
\<close>

definition force_rollback_remove_meta ::
  "nat option \<Rightarrow> TabletInfo \<Rightarrow> tablet_map_t \<Rightarrow> engine \<Rightarrow> engine" where
  "force_rollback_remove_meta meta tablet_info tablet_map s =
     (case map_of tablet_map tablet_info of
        None \<Rightarrow> s
      | Some load_info \<Rightarrow>
          (case (rowset load_info, meta) of
             (Some r, Some m) \<Rightarrow>
               RowsetMetaManager_remove m (tablet_uid tablet_info) (rowset_id (rowsets s r)) s
           | _ \<Rightarrow> s))"

text \<open>
  The inner loop over the entries of one shard's transaction map. It returns the entries
  that stay and the state, in which only the partition index and the metadata store have
  changed; the caller stores the entries back into the shard.
\<close>

fun force_rollback_entries ::
  "nat option \<Rightarrow> TabletInfo \<Rightarrow> txn_tablet_map_t \<Rightarrow> engine \<Rightarrow> txn_tablet_map_t \<times> engine" where
  "force_rollback_entries meta tablet_info [] s = ([], s)"
| "force_rollback_entries meta tablet_info ((key, tablet_map) # rest) s =
     (let s1 = force_rollback_remove_meta meta tablet_info tablet_map s;
          tablet_map' = AList.delete tablet_info tablet_map
      in if tablet_map' = []
         then force_rollback_entries meta tablet_info rest
                (clear_txn_partition_map_unlocked (snd key) (fst key) s1)
         else (case force_rollback_entries meta tablet_info rest s1 of
                 (rest', s2) \<Rightarrow> ((key, tablet_map') # rest', s2)))"

definition force_rollback_shard :: "nat option \<Rightarrow> TabletInfo \<Rightarrow> nat \<Rightarrow> engine \<Rightarrow> engine" where
  "force_rollback_shard meta tablet_info i s =
     (case force_rollback_entries meta tablet_info (txn_tablet_maps s i) s of
        (m, s') \<Rightarrow> s'\<lparr>txn_tablet_maps := (txn_tablet_maps s')(i := m)\<rparr>)"

definition force_rollback_tablet_related_txns ::
  "nat option \<Rightarrow> TTabletId \<Rightarrow> SchemaHash \<Rightarrow> TabletUid \<Rightarrow> engine \<Rightarrow> engine" where
  "force_rollback_tablet_related_txns meta tid shash uid s =
     fold (force_rollback_shard meta (TabletInfo tid shash uid)) [0..<txn_map_shard_size s] s"

subsection \<open>Ledger states and the partition-index invariant\<close>

text \<open>
  The states of the ledger: a freshly constructed manager, and every state produced from
  one by the six mutating operations, with any arguments and any collaborator results.
\<close>

inductive reachable :: "engine \<Rightarrow> bool" where
  reach_new: "0 < n \<Longrightarrow> reachable (new_TxnManager n heap stores)"
| reach_prepare:
    "reachable s \<Longrightarrow>
     reachable (snd (prepare_txn max_running now partition_id transaction_id tid shash uid lid ing s))"
| reach_commit:
    "reachable s \<Longrightarrow>
     commit_txn save_status recovered now meta partition_id transaction_id tid shash uid lid
       rowset_ptr is_recovery s = Some (st, s') \<Longrightarrow>
     reachable s'"
| reach_publish:
    "reachable s \<Longrightarrow>
     reachable (snd (publish_txn io meta partition_id transaction_id tid shash uid ver s))"
| reach_rollback:
    "reachable s \<Longrightarrow> reachable (snd (rollback_txn partition_id transaction_id tid shash uid s))"
| reach_delete:
    "reachable s \<Longrightarrow>
     reachable (snd (delete_txn meta_opt partition_id transaction_id tid shash uid s))"
| reach_force_rollback:
    "reachable s \<Longrightarrow> reachable (force_rollback_tablet_related_txns meta_opt tid shash uid s)"

text \<open>The partitions registered for a transaction id in a partition index.\<close>

definition partitions_of :: "txn_partition_map_t \<Rightarrow> TTransactionId \<Rightarrow> TPartitionId set" where
  "partitions_of m transaction_id =
     (case map_of m transaction_id of None \<Rightarrow> {} | Some ps \<Rightarrow> ps)"

text \<open>
  Consistency of one shard, and of the ledger: the partition index maps a transaction
  id to a partition exactly when the transaction map holds a non-empty tablet map under
  that (partition, transaction) key.
\<close>

definition shard_consistent :: "txn_tablet_map_t \<Rightarrow> txn_partition_map_t \<Rightarrow> bool" where
  "shard_consistent tm pm \<longleftrightarrow>
     (\<forall>transaction_id partition_id.
        partition_id \<in> partitions_of pm transaction_id \<longleftrightarrow>
        (\<exists>tablet_map. map_of tm (partition_id, transaction_id) = Some tablet_map \<and>
                      tablet_map \<noteq> []))"

definition partition_index_consistent :: "engine \<Rightarrow> bool" where
  "partition_index_consistent s \<longleftrightarrow>
     (\<forall>i. shard_consistent (txn_tablet_maps s i) (txn_partition_maps s i))"

text \<open>
  Two facts about the representation that the invariant proof needs: the keys of a
  shard's transaction map are distinct, and a key lives in the shard its transaction
  id selects.
\<close>

definition shards_wf :: "engine \<Rightarrow> bool" where
  "shards_wf s \<longleftrightarrow>
     (\<forall>i. distinct (map fst (txn_tablet_maps s i)) \<and>
          (\<forall>key. key \<in> fst ` set (txn_tablet_maps s i) \<longrightarrow>
             shard_index (txn_map_shard_size s) (snd key) = i))"

text \<open>Every entry that holds a rowset has identifiers that \<open>commit_txn\<close> accepts.\<close>

definition entry_ids_valid :: "TxnKey \<Rightarrow> tablet_map_t \<Rightarrow> bool" where
  "entry_ids_valid key tablet_map \<longleftrightarrow>
     (\<forall>(tablet_info, load_info) \<in> set tablet_map.
        rowset load_info \<noteq> None \<longrightarrow>
        1 \<le> fst key \<and> 1 \<le> snd key \<and> 1 \<le> tablet_id tablet_info)"

definition committed_ids_valid :: "engine \<Rightarrow> bool" where
  "committed_ids_valid s \<longleftrightarrow>
     (\<forall>i key tablet_map.
        (key, tablet_map) \<in> set (txn_tablet_maps s i) \<longrightarrow> entry_ids_valid key tablet_map)"

text \<open>
  The states of the ledger when \<open>set_txn_related_delete_bitmap\<close> is counted among the
  operations as well.
\<close>

inductive ledger_state :: "engine \<Rightarrow> bool" where
  ledger_new: "0 < n \<Longrightarrow> ledger_state (new_TxnManager n heap stores)"
| ledger_prepare:
    "ledger_state s \<Longrightarrow>
     ledger_state (snd (prepare_txn max_running now partition_id transaction_id tid shash uid lid ing s))"
| ledger_commit:
    "ledger_state s \<Longrightarrow>
     commit_txn save_status recovered now meta partition_id transaction_id tid shash uid lid
       rowset_ptr is_recovery s = Some (st, s') \<Longrightarrow>
     ledger_state s'"
| ledger_publish:
    "ledger_state s \<Longrightarrow>
     ledger_state (snd (publish_txn io meta partition_id transaction_id tid shash uid ver s))"
| ledger_rollback:
    "ledger_state s \<Longrightarrow>
     ledger_state (snd (rollback_txn partition_id transaction_id tid shash uid s))"
| ledger_delete:
    "ledger_state s \<Longrightarrow>
     ledger_state (snd (delete_txn meta_opt partition_id transaction_id tid shash uid s))"
| ledger_force_rollback:
    "ledger_state s \<Longrightarrow>
     ledger_state (force_rollback_tablet_related_txns meta_opt tid shash uid s)"
| ledger_set_delete_bitmap:
    "ledger_state s \<Longrightarrow>
     set_txn_related_delete_bitmap partition_id transaction_id tid shash uid merge_on_write
       bitmap ids s = Some s' \<Longrightarrow>
     ledger_state s'"

text \<open>
  In the words of the spec: "the partition's concurrent-transaction count", the number
  of transactions that the ledger, over all its shards, tracks for a partition. The code
  has no such quantity; \<open>prepare_txn\<close> compares \<open>map_size\<close> of one shard's partition
  index with the ceiling.
\<close>

definition partition_txn_count :: "engine \<Rightarrow> TPartitionId \<Rightarrow> nat" where
  "partition_txn_count s partition_id =
     length (remdups (concat (map
       (\<lambda>i. map (\<lambda>(key, tablet_map). snd key)
              (filter (\<lambda>(key, tablet_map). fst key = partition_id) (txn_tablet_maps s i)))
       [0..<txn_map_shard_size s])))"

section \<open>Compaction scheduler (be/src/olap/olap\_server.cpp)\<close>

subsection \<open>Data model\<close>

datatype CompactionType = BASE_COMPACTION | CUMULATIVE_COMPACTION

text \<open>
  A data directory: its address (the key of the submitted-task maps) and the answers of
  \<open>is_ssd_disk()\<close> and \<open>reach_capacity_limit(0)\<close> during the round.
\<close>

record DataDir =
  data_dir_id :: nat
  is_ssd_disk :: bool
  reach_capacity_limit :: bool

text \<open>The two slot counts read from the configuration (declared outside the sources).\<close>

record compaction_config =
  compaction_task_num_per_fast_disk :: int
  compaction_task_num_per_disk :: int

text \<open>The calls to the permit limiter and to the tablet, in the order they are made.\<close>

datatype sched_event =
    PermitRequest int
  | PermitRelease int
  | PrepareCompaction TTabletId CompactionType
  | ExecuteCompaction TTabletId CompactionType
  | ResetCompaction TTabletId CompactionType

text \<open>
  The scheduler's state. The submitted-task maps are only ever accessed with
  \<open>operator[]\<close>, which yields the empty set for a directory without an entry, so they are
  total functions from directories to sets of tablet ids.
\<close>

record StorageEngine =
  tablet_submitted_cumu_compaction :: "nat \<Rightarrow> TTabletId set"
  tablet_submitted_base_compaction :: "nat \<Rightarrow> TTabletId set"
  wakeup_producer_flag :: int
  sched_log :: "sched_event list"

subsection \<open>\_generate\_compaction\_tasks\<close>

text \<open>
  The value of the variable \<open>need_pick_tablet\<close> after the slot check at the head of the
  loop body, for one data directory.
\<close>

definition need_pick_tablet ::
  "compaction_config \<Rightarrow> CompactionType \<Rightarrow> (nat \<Rightarrow> TTabletId set) \<Rightarrow> (nat \<Rightarrow> TTabletId set) \<Rightarrow>
   DataDir \<Rightarrow> bool" where
  "need_pick_tablet cfg compaction_type copied_cumu_map copied_base_map data_dir =
     (let count = int (card (copied_cumu_map (data_dir_id data_dir)) +
                       card (copied_base_map (data_dir_id data_dir)));
          thread_per_disk = (if is_ssd_disk data_dir
                             then compaction_task_num_per_fast_disk cfg
                             else compaction_task_num_per_disk cfg)
      in if count \<ge> thread_per_disk then False
         else if count \<ge> thread_per_disk - 1
         then (if compaction_type = BASE_COMPACTION
               then (if copied_cumu_map (data_dir_id data_dir) = {} then False else True)
               else True)
         else True)"

text \<open>
  The rest of the loop body for one data directory. \<open>find_best\<close> stands for
  \<open>TabletManager::find_best_tablet_to_compaction\<close>, which returns the tablet (or a null
  pointer) and the directory's maximum score. The accumulator is the pair of
  \<open>tablets_compaction\<close> and \<open>max_compaction_score\<close>; a \<open>continue\<close> returns it
  unchanged.
\<close>

fun generate_compaction_tasks_body ::
  "compaction_config \<Rightarrow> (CompactionType \<Rightarrow> DataDir \<Rightarrow> TTabletId set \<Rightarrow> Tablet option \<times> nat) \<Rightarrow>
   CompactionType \<Rightarrow> bool \<Rightarrow> (nat \<Rightarrow> TTabletId set) \<Rightarrow> (nat \<Rightarrow> TTabletId set) \<Rightarrow>
   DataDir \<Rightarrow> Tablet list \<times> nat \<Rightarrow> Tablet list \<times> nat" where
  "generate_compaction_tasks_body cfg find_best compaction_type check_score cumu base data_dir
     (tablets_compaction, max_compaction_score) =
     (let pick = need_pick_tablet cfg compaction_type cumu base data_dir
      in if \<not> pick \<and> \<not> check_score then (tablets_compaction, max_compaction_score)
         else if reach_capacity_limit data_dir then (tablets_compaction, max_compaction_score)
         else
           (case find_best compaction_type data_dir
                   (if compaction_type = CUMULATIVE_COMPACTION
                    then cumu (data_dir_id data_dir) else base (data_dir_id data_dir)) of
              (None, disk_max_score) \<Rightarrow> (tablets_compaction, max_compaction_score)
            | (Some tablet, disk_max_score) \<Rightarrow>
                if \<not> disable_auto_compaction tablet
                then (if pick then tablets_compaction @ [tablet] else tablets_compaction,
                      max max_compaction_score disk_max_score)
                else (tablets_compaction, max_compaction_score)))"

text \<open>
  \<open>_generate_compaction_tasks\<close>: the loop over \<open>data_dirs\<close>, the list after the
  shuffle, with the maps copied from the state. The result is \<open>tablets_compaction\<close>.
\<close>

definition generate_compaction_tasks ::
  "compaction_config \<Rightarrow> (CompactionType \<Rightarrow> DataDir \<Rightarrow> TTabletId set \<Rightarrow> Tablet option \<times> nat) \<Rightarrow>
   CompactionType \<Rightarrow> DataDir list \<Rightarrow> bool \<Rightarrow> StorageEngine \<Rightarrow> Tablet list" where
  "generate_compaction_tasks cfg find_best compaction_type data_dirs check_score e =
     fst (fold (generate_compaction_tasks_body cfg find_best compaction_type check_score
                  (tablet_submitted_cumu_compaction e) (tablet_submitted_base_compaction e))
            data_dirs ([], 0))"

subsection \<open>\_submit\_compaction\_task\<close>

definition log_event :: "sched_event \<Rightarrow> StorageEngine \<Rightarrow> StorageEngine" where
  "log_event ev e = e\<lparr>sched_log := sched_log e @ [ev]\<rparr>"

text \<open>\<open>_push_tablet_into_submitted_compaction\<close>: returns \<open>already_existed\<close>.\<close>

definition push_tablet_into_submitted_compaction ::
  "Tablet \<Rightarrow> CompactionType \<Rightarrow> StorageEngine \<Rightarrow> bool \<times> StorageEngine" where
  "push_tablet_into_submitted_compaction tablet compaction_type e =
     (let d = tablet_data_dir tablet; t = tablet_tablet_id tablet
      in case compaction_type of
           CUMULATIVE_COMPACTION \<Rightarrow>
             (t \<in> tablet_submitted_cumu_compaction e d,
              e\<lparr>tablet_submitted_cumu_compaction :=
                  (tablet_submitted_cumu_compaction e)
                    (d := insert t (tablet_submitted_cumu_compaction e d))\<rparr>)
         | BASE_COMPACTION \<Rightarrow>
             (t \<in> tablet_submitted_base_compaction e d,
              e\<lparr>tablet_submitted_base_compaction :=
                  (tablet_submitted_base_compaction e)
                    (d := insert t (tablet_submitted_base_compaction e d))\<rparr>))"

text \<open>
  \<open>_pop_tablet_from_submitted_compaction\<close>: erase the tablet and wake the producer when
  one element was removed.
\<close>

definition pop_tablet_from_submitted_compaction ::
  "Tablet \<Rightarrow> CompactionType \<Rightarrow> StorageEngine \<Rightarrow> StorageEngine" where
  "pop_tablet_from_submitted_compaction tablet compaction_type e =
     (let d = tablet_data_dir tablet; t = tablet_tablet_id tablet;
          removed = (case compaction_type of
                       CUMULATIVE_COMPACTION \<Rightarrow> t \<in> tablet_submitted_cumu_compaction e d
                     | BASE_COMPACTION \<Rightarrow> t \<in> tablet_submitted_base_compaction e d);
          e1 = (case compaction_type of
                  CUMULATIVE_COMPACTION \<Rightarrow>
                    e\<lparr>tablet_submitted_cumu_compaction :=
                        (tablet_submitted_cumu_compaction e)
                          (d := tablet_submitted_cumu_compaction e d - {t})\<rparr>
                | BASE_COMPACTION \<Rightarrow>
                    e\<lparr>tablet_submitted_base_compaction :=
                        (tablet_submitted_base_compaction e)
                          (d := tablet_submitted_base_compaction e d - {t})\<rparr>)
      in if removed then e1\<lparr>wakeup_producer_flag := 1\<rparr> else e1)"

text \<open>
  The results of the collaborators during one submission: the status and the permits
  computed by \<open>prepare_compaction_and_calculate_permits\<close>, and the status of the thread
  pool's \<open>submit_func\<close>.
\<close>

record submit_io =
  io_prepare :: Status
  io_permits :: int
  io_pool_submit :: Status

text \<open>The closure handed to the thread pool captures the tablet, the type and the permits.\<close>

datatype compaction_task = CompactionTask Tablet CompactionType int

text \<open>The body of the closure, run by a worker thread.\<close>

fun run_compaction_task :: "compaction_task \<Rightarrow> StorageEngine \<Rightarrow> StorageEngine" where
  "run_compaction_task (CompactionTask tablet compaction_type permits) e =
     pop_tablet_from_submitted_compaction tablet compaction_type
       (log_event (ResetCompaction (tablet_tablet_id tablet) compaction_type)
          (log_event (PermitRelease permits)
             (log_event (ExecuteCompaction (tablet_tablet_id tablet) compaction_type) e)))"

text \<open>
  \<open>_submit_compaction_task\<close>: the status, the new state and the closure that the pool
  accepted, if any.
\<close>

definition submit_compaction_task ::
  "submit_io \<Rightarrow> Tablet \<Rightarrow> CompactionType \<Rightarrow> bool \<Rightarrow> StorageEngine \<Rightarrow>
   Status \<times> StorageEngine \<times> compaction_task option" where
  "submit_compaction_task io tablet compaction_type force e =
     (case push_tablet_into_submitted_compaction tablet compaction_type e of
        (True, e1) \<Rightarrow> (AlreadyExist, e1, None)
      | (False, e1) \<Rightarrow>
          let permits = io_permits io;
              st = io_prepare io;
              e2 = log_event (PrepareCompaction (tablet_tablet_id tablet) compaction_type) e1
          in if st = OK \<and> permits > 0
             then
               (let e3 = (if \<not> force then log_event (PermitRequest permits) e2 else e2)
                in if io_pool_submit io \<noteq> OK
                   then (InternalError,
                         pop_tablet_from_submitted_compaction tablet compaction_type
                           (log_event (ResetCompaction (tablet_tablet_id tablet) compaction_type)
                              (log_event (PermitRelease permits) e3)),
                         None)
                   else (OK, e3, Some (CompactionTask tablet compaction_type permits)))
             else
               (let e3 = pop_tablet_from_submitted_compaction tablet compaction_type
                           (log_event (ResetCompaction (tablet_tablet_id tablet) compaction_type)
                              e2)
                in if st \<noteq> OK then (InternalError, e3, None) else (st, e3, None)))"

text \<open>
  One complete run of a submission: the call, followed by the execution of the closure
  when the pool accepted it.
\<close>

definition submit_and_run ::
  "submit_io \<Rightarrow> Tablet \<Rightarrow> CompactionType \<Rightarrow> bool \<Rightarrow> StorageEngine \<Rightarrow> StorageEngine" where
  "submit_and_run io tablet compaction_type force e =
     (case submit_compaction_task io tablet compaction_type force e of
        (st, e1, None) \<Rightarrow> e1
      | (st, e1, Some task) \<Rightarrow> run_compaction_task task e1)"

text \<open>The permit amounts requested, and released, in a log.\<close>

fun permits_requested :: "sched_event list \<Rightarrow> int list" where
  "permits_requested [] = []"
| "permits_requested (PermitRequest n # evs) = n # permits_requested evs"
| "permits_requested (_ # evs) = permits_requested evs"

fun permits_released :: "sched_event list \<Rightarrow> int list" where
  "permits_released [] = []"
| "permits_released (PermitRelease n # evs) = n # permits_released evs"
| "permits_released (_ # evs) = permits_released evs"

section \<open>Example inputs\<close>

text \<open>
  A store of rowset objects: the rowset at address \<open>a\<close> has id \<open>a\<close>; the one at
  address 3 already carries version 2, the others are unpublished.
\<close>

definition example_rowsets :: "nat \<Rightarrow> Rowset" where
  "example_rowsets a = \<lparr>rowset_id = int a, version = (if a = 3 then (2, 2) else (0, 0))\<rparr>"

definition example_tablet_info :: TabletInfo where
  "example_tablet_info = TabletInfo 5 1 (7, 7)"

text \<open>A fresh manager with two shards and empty metadata stores.\<close>

definition example_new :: engine where
  "example_new = new_TxnManager 2 example_rowsets (\<lambda>_ _. None)"

text \<open>
  The ledger after \<open>prepare_txn\<close> for partition 1, transaction 100, tablet 5 and load id
  (9, 9), and after the following \<open>commit_txn\<close> of the rowset at address 1.
\<close>

definition example_prepared :: engine where
  "example_prepared =
     \<lparr>txn_map_shard_size = 2,
      txn_tablet_maps =
        (\<lambda>_. [])(0 := [((1, 100), [(example_tablet_info, new_TabletTxnInfo 0 (9, 9) None False)])]),
      txn_partition_maps = (\<lambda>_. [])(0 := [(100, {1})]),
      rowsets = example_rowsets, olap_meta = (\<lambda>_ _. None), effects = []\<rparr>"

definition example_committed :: engine where
  "example_committed =
     \<lparr>txn_map_shard_size = 2,
      txn_tablet_maps =
        (\<lambda>_. [])(0 := [((1, 100),
                          [(example_tablet_info, new_TabletTxnInfo 0 (9, 9) (Some 1) False)])]),
      txn_partition_maps = (\<lambda>_. [])(0 := [(100, {1})]),
      rowsets = example_rowsets,
      olap_meta = (\<lambda>_ _. None)(0 := (\<lambda>_. None)(((7, 7), 1) \<mapsto> example_rowsets 1)),
      effects = [SaveRowsetMeta 0 (7, 7) 1]\<rparr>"

text \<open>
  A ledger whose entry points to the rowset at address 3, which carries version 2: the
  state left behind by a publish that marked the rowset visible and then failed.
\<close>

definition example_versioned :: engine where
  "example_versioned =
     \<lparr>txn_map_shard_size = 2,
      txn_tablet_maps =
        (\<lambda>_. [])(0 := [((1, 100),
                          [(example_tablet_info, new_TabletTxnInfo 0 (9, 9) (Some 3) False)])]),
      txn_partition_maps = (\<lambda>_. [])(0 := [(100, {1})]),
      rowsets = example_rowsets,
      olap_meta = (\<lambda>_ _. None)(0 := (\<lambda>_. None)(((7, 7), 3) \<mapsto> example_rowsets 3)),
      effects = []\<rparr>"

text \<open>
  A shard that already tracks transaction 102, and one that tracks transactions 102 and
  100, the latter committed.
\<close>

definition example_busy :: engine where
  "example_busy =
     \<lparr>txn_map_shard_size = 2,
      txn_tablet_maps =
        (\<lambda>_. [])(0 := [((1, 102), [(example_tablet_info, new_TabletTxnInfo 0 (8, 8) None False)])]),
      txn_partition_maps = (\<lambda>_. [])(0 := [(102, {1})]),
      rowsets = example_rowsets, olap_meta = (\<lambda>_ _. None), effects = []\<rparr>"

definition example_busy_committed :: engine where
  "example_busy_committed =
     \<lparr>txn_map_shard_size = 2,
      txn_tablet_maps =
        (\<lambda>_. [])(0 := [((1, 102), [(example_tablet_info, new_TabletTxnInfo 0 (8, 8) None False)]),
                         ((1, 100),
                          [(example_tablet_info, new_TabletTxnInfo 0 (9, 9) (Some 1) False)])]),
      txn_partition_maps = (\<lambda>_. [])(0 := [(102, {1}), (100, {1})]),
      rowsets = example_rowsets,
      olap_meta = (\<lambda>_ _. None)(0 := (\<lambda>_. None)(((7, 7), 1) \<mapsto> example_rowsets 1)),
      effects = [SaveRowsetMeta 0 (7, 7) 1]\<rparr>"

text \<open>
  Partition 1 with two open transactions that live in different shards: 100 in shard 0
  and 101 in shard 1.
\<close>

definition example_two_shards :: engine where
  "example_two_shards =
     \<lparr>txn_map_shard_size = 2,
      txn_tablet_maps =
        (\<lambda>_. [])(0 := [((1, 100), [(example_tablet_info, new_TabletTxnInfo 0 (9, 9) None False)])],
                  1 := [((1, 101), [(example_tablet_info, new_TabletTxnInfo 0 (8, 8) None False)])]),
      txn_partition_maps = (\<lambda>_. [])(0 := [(100, {1})], 1 := [(101, {1})]),
      rowsets = example_rowsets, olap_meta = (\<lambda>_ _. None), effects = []\<rparr>"

text \<open>
  A tablet with binlog replication, and the collaborator results of three publish calls:
  everything succeeds; the tablet manager does not know the tablet; the binlog append
  fails.
\<close>

definition example_tablet :: Tablet where
  "example_tablet =
     \<lparr>tablet_tablet_id = 5, tablet_data_dir = 0, is_enable_binlog = True,
      enable_unique_key_merge_on_write = False, disable_auto_compaction = False\<rparr>"

definition example_io_ok :: publish_io where
  "example_io_ok =
     \<lparr>io_get_tablet = Some example_tablet, io_update_delete_bitmap = OK,
      io_is_partial_update = False, io_flush = OK, io_add_to_binlog = OK, io_save = OK\<rparr>"

definition example_io_unknown_tablet :: publish_io where
  "example_io_unknown_tablet = example_io_ok\<lparr>io_get_tablet := None\<rparr>"

definition example_io_binlog_fails :: publish_io where
  "example_io_binlog_fails = example_io_ok\<lparr>io_add_to_binlog := IOError\<rparr>"

text \<open>
  The scheduler scenario of the spec: one data directory (an HDD) with two slots, on
  which the cumulative compaction of tablet 10 is running; the tablet manager proposes
  tablet 11 with score 7.
\<close>

definition example_config :: compaction_config where
  "example_config = \<lparr>compaction_task_num_per_fast_disk = 4, compaction_task_num_per_disk = 2\<rparr>"

definition example_dir :: DataDir where
  "example_dir = \<lparr>data_dir_id = 0, is_ssd_disk = False, reach_capacity_limit = False\<rparr>"

definition example_candidate :: Tablet where
  "example_candidate =
     \<lparr>tablet_tablet_id = 11, tablet_data_dir = 0, is_enable_binlog = False,
      enable_unique_key_merge_on_write = False, disable_auto_compaction = False\<rparr>"

definition example_find_best ::
  "CompactionType \<Rightarrow> DataDir \<Rightarrow> TTabletId set \<Rightarrow> Tablet option \<times> nat" where
  "example_find_best compaction_type data_dir submitted = (Some example_candidate, 7)"

definition example_scheduler :: StorageEngine where
  "example_scheduler =
     \<lparr>tablet_submitted_cumu_compaction = (\<lambda>_. {})(0 := {10}),
      tablet_submitted_base_compaction = (\<lambda>_. {}),
      wakeup_producer_flag = 0, sched_log = []\<rparr>"

text \<open>A submission for which the tablet computes 5 permits and the pool accepts the task.\<close>

definition example_submit_io :: submit_io where
  "example_submit_io = \<lparr>io_prepare = OK, io_permits = 5, io_pool_submit = OK\<rparr>"

section \<open>Properties of the transaction ledger\<close>

subsection \<open>The partition index and the state's fields\<close>

lemma partitions_of_insert:
  "partitions_of (txn_partition_maps (insert_txn_partition_map_unlocked tid pid s) i) t =
     (if i = shard_index (txn_map_shard_size s) tid \<and> t = tid
      then insert pid (partitions_of (txn_partition_maps s i) t)
      else partitions_of (txn_partition_maps s i) t)"
  by (auto simp: insert_txn_partition_map_unlocked_def partitions_of_def get_txn_partition_map_def
      set_txn_partition_map_def Let_def map_of_map_entry update_conv' split: option.splits)

lemma partitions_of_clear:
  "partitions_of (txn_partition_maps (clear_txn_partition_map_unlocked tid pid s) i) t =
     (if i = shard_index (txn_map_shard_size s) tid \<and> t = tid
      then partitions_of (txn_partition_maps s i) t - {pid}
      else partitions_of (txn_partition_maps s i) t)"
  by (auto simp: clear_txn_partition_map_unlocked_def partitions_of_def get_txn_partition_map_def
      set_txn_partition_map_def Let_def delete_conv' update_conv' split: option.splits)

lemma insert_other_fields [simp]:
  "txn_tablet_maps (insert_txn_partition_map_unlocked tid pid s) = txn_tablet_maps s"
  "txn_map_shard_size (insert_txn_partition_map_unlocked tid pid s) = txn_map_shard_size s"
  "rowsets (insert_txn_partition_map_unlocked tid pid s) = rowsets s"
  "olap_meta (insert_txn_partition_map_unlocked tid pid s) = olap_meta s"
  "effects (insert_txn_partition_map_unlocked tid pid s) = effects s"
  by (simp_all add: insert_txn_partition_map_unlocked_def set_txn_partition_map_def Let_def)

lemma clear_other_fields [simp]:
  "txn_tablet_maps (clear_txn_partition_map_unlocked tid pid s) = txn_tablet_maps s"
  "txn_map_shard_size (clear_txn_partition_map_unlocked tid pid s) = txn_map_shard_size s"
  "rowsets (clear_txn_partition_map_unlocked tid pid s) = rowsets s"
  "olap_meta (clear_txn_partition_map_unlocked tid pid s) = olap_meta s"
  "effects (clear_txn_partition_map_unlocked tid pid s) = effects s"
  by (simp_all add: clear_txn_partition_map_unlocked_def set_txn_partition_map_def Let_def
      split: option.splits)

lemma set_ttm_fields [simp]:
  "txn_tablet_maps (set_txn_tablet_map tid m s) =
     (txn_tablet_maps s)(shard_index (txn_map_shard_size s) tid := m)"
  "txn_partition_maps (set_txn_tablet_map tid m s) = txn_partition_maps s"
  "txn_map_shard_size (set_txn_tablet_map tid m s) = txn_map_shard_size s"
  "rowsets (set_txn_tablet_map tid m s) = rowsets s"
  "olap_meta (set_txn_tablet_map tid m s) = olap_meta s"
  "effects (set_txn_tablet_map tid m s) = effects s"
  by (simp_all add: set_txn_tablet_map_def)

lemma map_of_assign_load_info:
  "map_of (assign_load_info key ti li m) =
     (map_of m)(key \<mapsto> AList.update ti li (case map_of m key of None \<Rightarrow> [] | Some tm \<Rightarrow> tm))"
  by (auto simp: assign_load_info_def map_of_map_entry update_conv' split: option.splits)

lemma keys_assign_load_info:
  "fst ` set (assign_load_info key ti li m) = insert key (fst ` set m)"
  by (auto simp: assign_load_info_def dom_map_entry dom_update split: option.splits
      intro: rev_image_eqI dest!: map_of_SomeD)

lemma distinct_assign_load_info:
  "distinct (map fst m) \<Longrightarrow> distinct (map fst (assign_load_info key ti li m))"
  by (auto simp: assign_load_info_def distinct_map_entry distinct_update split: option.splits)


lemma shards_wf_distinctD: "shards_wf s \<Longrightarrow> distinct (map fst (txn_tablet_maps s i))"
  unfolding shards_wf_def by blast

lemma shards_wf_keyD:
  "shards_wf s \<Longrightarrow> key \<in> fst ` set (txn_tablet_maps s i) \<Longrightarrow>
   shard_index (txn_map_shard_size s) (snd key) = i"
  unfolding shards_wf_def by blast

lemma shards_wfI:
  assumes "\<And>i. distinct (map fst (txn_tablet_maps s i))"
    and "\<And>i key. key \<in> fst ` set (txn_tablet_maps s i) \<Longrightarrow>
           shard_index (txn_map_shard_size s) (snd key) = i"
  shows "shards_wf s"
  unfolding shards_wf_def using assms by blast

lemma install_preserves_wf:
  assumes "shards_wf s"
  shows "shards_wf (install_load_info pid tid ti li s)"
proof (rule shards_wfI)
  fix i
  show "distinct (map fst (txn_tablet_maps (install_load_info pid tid ti li s) i))"
    using shards_wf_distinctD[OF assms]
    by (simp add: install_load_info_def get_txn_tablet_map_def distinct_assign_load_info)
next
  fix i key
  assume "key \<in> fst ` set (txn_tablet_maps (install_load_info pid tid ti li s) i)"
  then show "shard_index (txn_map_shard_size (install_load_info pid tid ti li s)) (snd key) = i"
    using shards_wf_keyD[OF assms, of key i]
    by (simp add: install_load_info_def get_txn_tablet_map_def keys_assign_load_info
        split: if_splits) auto
qed

lemma install_preserves_consistent:
  assumes "partition_index_consistent s"
  shows "partition_index_consistent (install_load_info pid tid ti li s)"
  using assms
  by (auto simp: partition_index_consistent_def shard_consistent_def partitions_of_insert
      install_load_info_def get_txn_tablet_map_def map_of_assign_load_info)

lemma erase_preserves_wf:
  assumes "shards_wf s" and "map_of (get_txn_tablet_map s tid) (pid, tid) = Some tm"
  shows "shards_wf (erase_tablet_info pid tid ti tm s)"
proof -
  let ?i = "shard_index (txn_map_shard_size s) tid"
  let ?m = "txn_tablet_maps s ?i"
  have key: "(pid, tid) \<in> fst ` set ?m"
    using assms(2) by (auto simp: get_txn_tablet_map_def intro: rev_image_eqI dest!: map_of_SomeD)
  have d: "distinct (map fst ?m)" by (rule shards_wf_distinctD[OF assms(1)])
  have 1: "distinct (map fst (AList.delete (pid, tid) ?m))" using d by (rule distinct_delete)
  have 2: "distinct (map fst (AList.update (pid, tid) v ?m))" for v using d by (rule distinct_update)
  have 3: "fst ` set (AList.delete (pid, tid) ?m) \<subseteq> fst ` set ?m" by (rule dom_delete_subset)
  have 4: "fst ` set (AList.update (pid, tid) v ?m) \<subseteq> fst ` set ?m" for v
    using key by (auto simp: dom_update)
  show ?thesis
  proof (rule shards_wfI)
    fix i
    show "distinct (map fst (txn_tablet_maps (erase_tablet_info pid tid ti tm s) i))"
      using shards_wf_distinctD[OF assms(1), of i] 1 2
      by (simp add: erase_tablet_info_def Let_def get_txn_tablet_map_def)
  next
    fix i key
    assume "key \<in> fst ` set (txn_tablet_maps (erase_tablet_info pid tid ti tm s) i)"
    then have "key \<in> fst ` set (txn_tablet_maps s i)"
      using 3 4[of "AList.delete ti tm"]
      by (simp add: erase_tablet_info_def Let_def get_txn_tablet_map_def split: if_splits) blast+
    then show "shard_index (txn_map_shard_size (erase_tablet_info pid tid ti tm s)) (snd key) = i"
      using shards_wf_keyD[OF assms(1), of key i]
      by (simp add: erase_tablet_info_def Let_def)
  qed
qed

lemma erase_preserves_consistent:
  assumes "partition_index_consistent s" and "map_of (get_txn_tablet_map s tid) (pid, tid) = Some tm"
  shows "partition_index_consistent (erase_tablet_info pid tid ti tm s)"
proof (cases "AList.delete ti tm = []")
  case True
  then show ?thesis
    using assms
    by (auto simp: partition_index_consistent_def shard_consistent_def erase_tablet_info_def
        Let_def partitions_of_clear get_txn_tablet_map_def delete_conv')
next
  case False
  then have "tm \<noteq> []" by auto
  with False show ?thesis
    using assms
    by (auto simp: partition_index_consistent_def shard_consistent_def erase_tablet_info_def
        Let_def get_txn_tablet_map_def update_conv')
qed


lemma force_rollback_remove_meta_fields [simp]:
  "txn_tablet_maps (force_rollback_remove_meta meta ti tm s) = txn_tablet_maps s"
  "txn_partition_maps (force_rollback_remove_meta meta ti tm s) = txn_partition_maps s"
  "txn_map_shard_size (force_rollback_remove_meta meta ti tm s) = txn_map_shard_size s"
  "rowsets (force_rollback_remove_meta meta ti tm s) = rowsets s"
  by (simp_all add: force_rollback_remove_meta_def RowsetMetaManager_remove_def add_effect_def
      split: prod.splits option.splits)

lemma force_rollback_entries_fields:
  "txn_tablet_maps (snd (force_rollback_entries meta ti L s)) = txn_tablet_maps s \<and>
   txn_map_shard_size (snd (force_rollback_entries meta ti L s)) = txn_map_shard_size s \<and>
   rowsets (snd (force_rollback_entries meta ti L s)) = rowsets s"
proof (induction L arbitrary: s)
  case Nil
  then show ?case by simp
next
  case (Cons e L)
  obtain key tm where e: "e = (key, tm)" by (cases e)
  show ?case
    unfolding e
    by (simp add: Let_def Cons.IH case_prod_beta)
qed

lemma force_rollback_entries_result:
  "fst (force_rollback_entries meta ti L s) =
     map (\<lambda>(k, tm). (k, AList.delete ti tm)) (filter (\<lambda>(k, tm). AList.delete ti tm \<noteq> []) L)"
proof (induction L arbitrary: s)
  case Nil
  then show ?case by simp
next
  case (Cons e L)
  obtain key tm where e: "e = (key, tm)" by (cases e)
  show ?case
    unfolding e
    by (simp add: Let_def Cons.IH case_prod_beta)
qed

lemma force_rollback_entries_partitions:
  "partitions_of (txn_partition_maps (snd (force_rollback_entries meta ti L s)) i) t =
     partitions_of (txn_partition_maps s i) t -
       {p. shard_index (txn_map_shard_size s) t = i \<and>
           (\<exists>tm. ((p, t), tm) \<in> set L \<and> AList.delete ti tm = [])}"
proof (induction L arbitrary: s)
  case Nil
  then show ?case by simp
next
  case (Cons e L)
  obtain p0 t0 tm where e: "e = ((p0, t0), tm)" by (cases e) auto
  show ?case
  proof (cases "AList.delete ti tm = []")
    case True
    have "force_rollback_entries meta ti (e # L) s =
            force_rollback_entries meta ti L
              (clear_txn_partition_map_unlocked t0 p0 (force_rollback_remove_meta meta ti tm s))"
      unfolding e using True by (simp add: Let_def)
    then show ?thesis
      using True by (auto simp: Cons.IH partitions_of_clear e)
  next
    case False
    have "snd (force_rollback_entries meta ti (e # L) s) =
          snd (force_rollback_entries meta ti L (force_rollback_remove_meta meta ti tm s))"
      unfolding e using False by (simp add: Let_def case_prod_beta)
    then show ?thesis
      using False by (auto simp: Cons.IH e)
  qed
qed


lemma map_of_swept:
  assumes "distinct (map fst L)"
  shows "map_of (map (\<lambda>(k, tm). (k, AList.delete ti tm))
                  (filter (\<lambda>(k, tm). AList.delete ti tm \<noteq> []) L)) key =
         (case map_of L key of
            None \<Rightarrow> None
          | Some tm \<Rightarrow> if AList.delete ti tm = [] then None else Some (AList.delete ti tm))"
  using assms
proof (induction L)
  case Nil
  then show ?case by simp
next
  case (Cons e L)
  obtain k tm where e: "e = (k, tm)" by (cases e)
  have notin: "k \<notin> fst ` set L" using Cons.prems by (simp add: e)
  then have none: "map_of L k = None" by (simp add: map_of_eq_None_iff)
  show ?case
    using Cons none by (auto simp: e)
qed

lemma keys_swept:
  "fst ` set (map (\<lambda>(k, tm). (k, AList.delete ti tm))
                (filter (\<lambda>(k, tm). AList.delete ti tm \<noteq> []) L)) \<subseteq> fst ` set L"
  by force

lemma distinct_swept:
  assumes "distinct (map fst L)"
  shows "distinct (map fst (map (\<lambda>(k, tm). (k, AList.delete ti tm))
                        (filter (\<lambda>(k, tm). AList.delete ti tm \<noteq> []) L)))"
proof -
  have h: "fst \<circ> (\<lambda>(k, tm). (k, AList.delete ti tm)) = fst"
    by (auto simp: fun_eq_iff)
  show ?thesis unfolding map_map h by (rule distinct_map_filter[OF assms])
qed

lemma force_rollback_shard_fields:
  "txn_map_shard_size (force_rollback_shard meta ti i s) = txn_map_shard_size s"
  "txn_tablet_maps (force_rollback_shard meta ti i s) =
     (txn_tablet_maps s)(i := map (\<lambda>(k, tm). (k, AList.delete ti tm))
                               (filter (\<lambda>(k, tm). AList.delete ti tm \<noteq> []) (txn_tablet_maps s i)))"
  "txn_partition_maps (force_rollback_shard meta ti i s) =
     txn_partition_maps (snd (force_rollback_entries meta ti (txn_tablet_maps s i) s))"
  using force_rollback_entries_fields[of meta ti "txn_tablet_maps s i" s]
    force_rollback_entries_result[of meta ti "txn_tablet_maps s i" s]
  by (auto simp: force_rollback_shard_def split: prod.splits)

lemma force_rollback_shard_wf:
  assumes "shards_wf s"
  shows "shards_wf (force_rollback_shard meta ti i s)"
proof (rule shards_wfI)
  fix j
  show "distinct (map fst (txn_tablet_maps (force_rollback_shard meta ti i s) j))"
    using shards_wf_distinctD[OF assms, of j]
      distinct_swept[OF shards_wf_distinctD[OF assms, of i], of ti]
    by (simp add: force_rollback_shard_fields)
next
  fix j key
  assume "key \<in> fst ` set (txn_tablet_maps (force_rollback_shard meta ti i s) j)"
  then have "key \<in> fst ` set (txn_tablet_maps s j)"
    using keys_swept[of ti "txn_tablet_maps s i"]
    by (simp add: force_rollback_shard_fields split: if_splits) blast
  then show "shard_index (txn_map_shard_size (force_rollback_shard meta ti i s)) (snd key) = j"
    using shards_wf_keyD[OF assms] by (simp add: force_rollback_shard_fields)
qed

lemma force_rollback_shard_consistent:
  assumes wf: "shards_wf s" and c: "partition_index_consistent s"
  shows "partition_index_consistent (force_rollback_shard meta ti i s)"
  unfolding partition_index_consistent_def shard_consistent_def
proof (intro allI)
  fix j t p
  let ?L = "txn_tablet_maps s i"
  let ?s' = "force_rollback_shard meta ti i s"
  have old: "p \<in> partitions_of (txn_partition_maps s j) t \<longleftrightarrow>
             (\<exists>tm. map_of (txn_tablet_maps s j) (p, t) = Some tm \<and> tm \<noteq> [])"
    using c unfolding partition_index_consistent_def shard_consistent_def by blast
  have parts: "partitions_of (txn_partition_maps ?s' j) t =
        partitions_of (txn_partition_maps s j) t -
          {p. shard_index (txn_map_shard_size s) t = j \<and>
              (\<exists>tm. ((p, t), tm) \<in> set ?L \<and> AList.delete ti tm = [])}"
    by (simp add: force_rollback_shard_fields force_rollback_entries_partitions)
  have d: "distinct (map fst ?L)" by (rule shards_wf_distinctD[OF wf])
  have inL: "((p, t), tm) \<in> set ?L \<Longrightarrow> shard_index (txn_map_shard_size s) t = i" for tm
    using shards_wf_keyD[OF wf, of "(p, t)" i] by (force intro: rev_image_eqI)
  have mem: "((p, t), tm) \<in> set ?L \<longleftrightarrow> map_of ?L (p, t) = Some tm" for tm
    using d by (auto dest: map_of_SomeD)
  show "p \<in> partitions_of (txn_partition_maps ?s' j) t \<longleftrightarrow>
        (\<exists>tm. map_of (txn_tablet_maps ?s' j) (p, t) = Some tm \<and> tm \<noteq> [])"
  proof (cases "j = i")
    case True
    have rhs: "(\<exists>tm. map_of (txn_tablet_maps ?s' j) (p, t) = Some tm \<and> tm \<noteq> []) \<longleftrightarrow>
               (\<exists>tm. map_of ?L (p, t) = Some tm \<and> AList.delete ti tm \<noteq> [])"
      by (simp add: True force_rollback_shard_fields map_of_swept[OF d] split: option.splits)
    have cleared: "(shard_index (txn_map_shard_size s) t = j \<and>
                    (\<exists>tm. ((p, t), tm) \<in> set ?L \<and> AList.delete ti tm = [])) \<longleftrightarrow>
                   (\<exists>tm. map_of ?L (p, t) = Some tm \<and> AList.delete ti tm = [])"
      unfolding mem True using inL[unfolded mem] by blast
    have lhs: "p \<in> partitions_of (txn_partition_maps ?s' j) t \<longleftrightarrow>
               (\<exists>tm. map_of ?L (p, t) = Some tm \<and> tm \<noteq> []) \<and>
               \<not> (\<exists>tm. map_of ?L (p, t) = Some tm \<and> AList.delete ti tm = [])"
      unfolding parts using old cleared by (simp add: True)
    show ?thesis
    proof
      assume "p \<in> partitions_of (txn_partition_maps ?s' j) t"
      then obtain tm where tm: "map_of ?L (p, t) = Some tm" "tm \<noteq> []"
        and no: "\<not> (\<exists>tm. map_of ?L (p, t) = Some tm \<and> AList.delete ti tm = [])"
        unfolding lhs by blast
      from tm(1) no have "AList.delete ti tm \<noteq> []" by blast
      with tm(1) show "\<exists>tm. map_of (txn_tablet_maps ?s' j) (p, t) = Some tm \<and> tm \<noteq> []"
        unfolding rhs by blast
    next
      assume "\<exists>tm. map_of (txn_tablet_maps ?s' j) (p, t) = Some tm \<and> tm \<noteq> []"
      then obtain tm where tm: "map_of ?L (p, t) = Some tm" "AList.delete ti tm \<noteq> []"
        unfolding rhs by blast
      from tm(2) have "tm \<noteq> []" by auto
      with tm show "p \<in> partitions_of (txn_partition_maps ?s' j) t"
        unfolding lhs by auto
    qed
  next
    case False
    have "{p. shard_index (txn_map_shard_size s) t = j \<and>
              (\<exists>tm. ((p, t), tm) \<in> set ?L \<and> AList.delete ti tm = [])} = {}"
      using False shards_wf_keyD[OF wf, of _ i] by (force intro: rev_image_eqI)
    then have "partitions_of (txn_partition_maps ?s' j) t = partitions_of (txn_partition_maps s j) t"
      unfolding parts by (simp only: Diff_empty)
    moreover have "txn_tablet_maps ?s' j = txn_tablet_maps s j"
      using False by (simp add: force_rollback_shard_fields)
    ultimately show ?thesis using old by simp
  qed
qed

subsection \<open>Every operation preserves the invariant\<close>

lemma add_effect_fields [simp]:
  "txn_tablet_maps (add_effect e s) = txn_tablet_maps s"
  "txn_partition_maps (add_effect e s) = txn_partition_maps s"
  "txn_map_shard_size (add_effect e s) = txn_map_shard_size s"
  "rowsets (add_effect e s) = rowsets s"
  "olap_meta (add_effect e s) = olap_meta s"
  "effects (add_effect e s) = effects s @ [e]"
  by (simp_all add: add_effect_def)

lemma save_fields [simp]:
  "txn_tablet_maps (RowsetMetaManager_save m u r pb st s) = txn_tablet_maps s"
  "txn_partition_maps (RowsetMetaManager_save m u r pb st s) = txn_partition_maps s"
  "txn_map_shard_size (RowsetMetaManager_save m u r pb st s) = txn_map_shard_size s"
  "rowsets (RowsetMetaManager_save m u r pb st s) = rowsets s"
  "effects (RowsetMetaManager_save m u r pb st s) = effects s @ [SaveRowsetMeta m u r]"
  by (simp_all add: RowsetMetaManager_save_def Let_def)

lemma remove_fields [simp]:
  "txn_tablet_maps (RowsetMetaManager_remove m u r s) = txn_tablet_maps s"
  "txn_partition_maps (RowsetMetaManager_remove m u r s) = txn_partition_maps s"
  "txn_map_shard_size (RowsetMetaManager_remove m u r s) = txn_map_shard_size s"
  "rowsets (RowsetMetaManager_remove m u r s) = rowsets s"
  "effects (RowsetMetaManager_remove m u r s) = effects s @ [RemoveRowsetMeta m u r]"
  by (simp_all add: RowsetMetaManager_remove_def Let_def)

lemma shards_wf_cong:
  "txn_tablet_maps s' = txn_tablet_maps s \<Longrightarrow> txn_map_shard_size s' = txn_map_shard_size s \<Longrightarrow>
   shards_wf s' = shards_wf s"
  by (simp add: shards_wf_def)

lemma consistent_cong:
  "txn_tablet_maps s' = txn_tablet_maps s \<Longrightarrow> txn_partition_maps s' = txn_partition_maps s \<Longrightarrow>
   partition_index_consistent s' = partition_index_consistent s"
  by (simp add: partition_index_consistent_def)

lemma get_txn_tablet_map_cong:
  "txn_tablet_maps s' = txn_tablet_maps s \<Longrightarrow> txn_map_shard_size s' = txn_map_shard_size s \<Longrightarrow>
   get_txn_tablet_map s' = get_txn_tablet_map s"
  by (simp add: get_txn_tablet_map_def fun_eq_iff)

lemma prepare_cases:
  "snd (prepare_txn mx now pid tid tab sh uid lid ing s) = s \<or>
   snd (prepare_txn mx now pid tid tab sh uid lid ing s) =
     install_load_info pid tid (TabletInfo tab sh uid) (new_TabletTxnInfo now lid None ing) s"
  by (simp add: prepare_txn_def Let_def)

lemma prepare_inv:
  assumes "shards_wf s \<and> partition_index_consistent s"
  shows "shards_wf (snd (prepare_txn mx now pid tid tab sh uid lid ing s)) \<and>
         partition_index_consistent (snd (prepare_txn mx now pid tid tab sh uid lid ing s))"
  using prepare_cases[of mx now pid tid tab sh uid lid ing s] assms
    install_preserves_wf[of s pid tid] install_preserves_consistent[of s pid tid]
  by metis

lemma commit_cases:
  assumes "commit_txn sv rc now meta pid tid tab sh uid lid rp isr s = Some (st, s')"
  shows "\<exists>s1. txn_tablet_maps s1 = txn_tablet_maps s \<and> txn_partition_maps s1 = txn_partition_maps s \<and>
              txn_map_shard_size s1 = txn_map_shard_size s \<and>
              (s' = s1 \<or> (\<exists>li. s' = install_load_info pid tid (TabletInfo tab sh uid) li s1))"
proof -
  have valid: "\<not> (pid < 1 \<or> tid < 1 \<or> tab < 1)"
    using assms by (auto simp: commit_txn_def)
  show ?thesis
  proof (cases rp)
    case None
    then have "s' = s" using assms valid by (simp add: commit_txn_def)
    then show ?thesis by blast
  next
    case (Some r)
    show ?thesis
    proof (cases "commit_find_duplicate s (pid, tid) (TabletInfo tab sh uid) lid r")
      case (Some a)
      then have "s' = s" using assms valid \<open>rp = Some r\<close> by (simp add: commit_txn_def)
      then show ?thesis by blast
    next
      case None
      let ?s1 = "if \<not> isr then RowsetMetaManager_save meta uid (rowset_id (rowsets s r)) (rowsets s r) sv s else s"
      have f: "txn_tablet_maps ?s1 = txn_tablet_maps s \<and> txn_partition_maps ?s1 = txn_partition_maps s \<and>
              txn_map_shard_size ?s1 = txn_map_shard_size s" by simp
      have "s' = ?s1 \<or> (\<exists>li. s' = install_load_info pid tid (TabletInfo tab sh uid) li ?s1)"
      proof (cases "\<not> isr \<and> sv \<noteq> OK")
        case True
        then show ?thesis
          using assms valid \<open>rp = Some r\<close> None by (simp add: commit_txn_def Let_def)
      next
        case False
        then have "\<exists>li. s' = install_load_info pid tid (TabletInfo tab sh uid) li ?s1"
          using assms valid \<open>rp = Some r\<close> None
          by (simp only: commit_txn_def Let_def option.case if_False if_True simp_thms
              prod.inject option.inject) blast
        then show ?thesis by blast
      qed
      with f show ?thesis by blast
    qed
  qed
qed


lemma commit_inv:
  assumes "shards_wf s \<and> partition_index_consistent s"
    and "commit_txn sv rc now meta pid tid tab sh uid lid rp isr s = Some (st, s')"
  shows "shards_wf s' \<and> partition_index_consistent s'"
proof -
  obtain s1 where s1: "txn_tablet_maps s1 = txn_tablet_maps s" "txn_partition_maps s1 = txn_partition_maps s"
    "txn_map_shard_size s1 = txn_map_shard_size s"
    and s': "s' = s1 \<or> (\<exists>li. s' = install_load_info pid tid (TabletInfo tab sh uid) li s1)"
    using commit_cases[OF assms(2)] by blast
  have 1: "shards_wf s1 \<and> partition_index_consistent s1"
    using assms(1) shards_wf_cong[OF s1(1) s1(3)] consistent_cong[OF s1(1) s1(2)] by simp
  from s' show ?thesis
    using 1 install_preserves_wf[of s1 pid tid] install_preserves_consistent[of s1 pid tid]
    by blast
qed

lemma rollback_inv:
  assumes "shards_wf s \<and> partition_index_consistent s"
  shows "shards_wf (snd (rollback_txn pid tid tab sh uid s)) \<and>
         partition_index_consistent (snd (rollback_txn pid tid tab sh uid s))"
proof (cases "map_of (get_txn_tablet_map s tid) (pid, tid)")
  case None
  then show ?thesis using assms by (simp add: rollback_txn_def)
next
  case (Some tm)
  then show ?thesis
    using assms erase_preserves_wf[OF _ Some] erase_preserves_consistent[OF _ Some]
    by (simp add: rollback_txn_def Let_def)
qed


lemma publish_update_delete_bitmap_fields [simp]:
  "txn_tablet_maps (snd (publish_update_delete_bitmap io r s)) = txn_tablet_maps s"
  "txn_partition_maps (snd (publish_update_delete_bitmap io r s)) = txn_partition_maps s"
  "txn_map_shard_size (snd (publish_update_delete_bitmap io r s)) = txn_map_shard_size s"
  "rowsets (snd (publish_update_delete_bitmap io r s)) = rowsets s"
  "olap_meta (snd (publish_update_delete_bitmap io r s)) = olap_meta s"
  by (simp_all add: publish_update_delete_bitmap_def Let_def)

lemma publish_cases:
  "\<exists>s4. txn_tablet_maps s4 = txn_tablet_maps s \<and> txn_partition_maps s4 = txn_partition_maps s \<and>
        txn_map_shard_size s4 = txn_map_shard_size s \<and>
        (snd (publish_txn io meta pid tid tab sh uid ver s) = s4 \<or>
         snd (publish_txn io meta pid tid tab sh uid ver s) =
           publish_remove pid tid (TabletInfo tab sh uid) s4)"
proof (cases "\<exists>tablet info r. io_get_tablet io = Some tablet \<and>
    find_load_info s (pid, tid) (TabletInfo tab sh uid) = Some info \<and> rowset info = Some r")
  case False
  then have "snd (publish_txn io meta pid tid tab sh uid ver s) = s"
    by (auto simp: publish_txn_def Let_def split: option.splits)
  then show ?thesis by blast
next
  case True
  then obtain tablet info r where h: "io_get_tablet io = Some tablet"
    "find_load_info s (pid, tid) (TabletInfo tab sh uid) = Some info" "rowset info = Some r"
    by blast
  define s1 where "s1 = add_effect (MakeVisible r ver)
                          (s\<lparr>rowsets := (rowsets s)(r := make_visible ver (rowsets s r))\<rparr>)"
  define step2 where "step2 = (if unique_key_merge_on_write info
                               then publish_update_delete_bitmap io r s1 else (OK, s1))"
  define s3 where "s3 = (if is_enable_binlog tablet then add_effect (AddToBinlog r) (snd step2)
                         else snd step2)"
  define s4 where "s4 = RowsetMetaManager_save meta uid (rowset_id (rowsets s3 r)) (rowsets s3 r)
                          (io_save io) s3"
  have f1: "txn_tablet_maps s1 = txn_tablet_maps s \<and> txn_partition_maps s1 = txn_partition_maps s \<and>
        txn_map_shard_size s1 = txn_map_shard_size s" by (simp add: s1_def)
  have f2: "txn_tablet_maps (snd step2) = txn_tablet_maps s \<and>
        txn_partition_maps (snd step2) = txn_partition_maps s \<and>
        txn_map_shard_size (snd step2) = txn_map_shard_size s" using f1 by (simp add: step2_def)
  have f3: "txn_tablet_maps s3 = txn_tablet_maps s \<and> txn_partition_maps s3 = txn_partition_maps s \<and>
        txn_map_shard_size s3 = txn_map_shard_size s" using f2 by (simp add: s3_def)
  have f4: "txn_tablet_maps s4 = txn_tablet_maps s \<and> txn_partition_maps s4 = txn_partition_maps s \<and>
        txn_map_shard_size s4 = txn_map_shard_size s" using f3 by (simp add: s4_def)
  have eq: "publish_txn io meta pid tid tab sh uid ver s =
      (if fst step2 \<noteq> OK then (fst step2, snd step2)
       else if is_enable_binlog tablet \<and> io_add_to_binlog io \<noteq> OK
       then (ROWSET_ADD_TO_BINLOG_FAILED, s3)
       else if io_save io \<noteq> OK then (ROWSET_SAVE_FAILED, s4)
       else (io_save io, publish_remove pid tid (TabletInfo tab sh uid) s4))"
    unfolding s4_def s3_def step2_def s1_def using h by (simp add: publish_txn_def Let_def)
  have "snd (publish_txn io meta pid tid tab sh uid ver s) \<in>
          {snd step2, s3, s4, publish_remove pid tid (TabletInfo tab sh uid) s4}"
    unfolding eq by simp
  then show ?thesis using f2 f3 f4 by auto
qed

lemma publish_remove_inv:
  assumes "shards_wf s \<and> partition_index_consistent s"
  shows "shards_wf (publish_remove pid tid ti s) \<and> partition_index_consistent (publish_remove pid tid ti s)"
proof (cases "map_of (get_txn_tablet_map s tid) (pid, tid)")
  case None
  then show ?thesis using assms by (simp add: publish_remove_def)
next
  case (Some tm)
  then show ?thesis
    using assms erase_preserves_wf[OF _ Some] erase_preserves_consistent[OF _ Some]
    by (simp add: publish_remove_def)
qed

lemma publish_inv:
  assumes "shards_wf s \<and> partition_index_consistent s"
  shows "shards_wf (snd (publish_txn io meta pid tid tab sh uid ver s)) \<and>
         partition_index_consistent (snd (publish_txn io meta pid tid tab sh uid ver s))"
proof -
  obtain s4 where f: "txn_tablet_maps s4 = txn_tablet_maps s" "txn_partition_maps s4 = txn_partition_maps s"
        "txn_map_shard_size s4 = txn_map_shard_size s"
    and c: "snd (publish_txn io meta pid tid tab sh uid ver s) = s4 \<or>
         snd (publish_txn io meta pid tid tab sh uid ver s) =
           publish_remove pid tid (TabletInfo tab sh uid) s4"
    using publish_cases by blast
  have 1: "shards_wf s4 \<and> partition_index_consistent s4"
    using assms shards_wf_cong[OF f(1) f(3)] consistent_cong[OF f(1) f(2)] by simp
  from c show ?thesis using 1 publish_remove_inv[OF 1] by metis
qed


lemma erase_inv_cong:
  assumes inv: "shards_wf s \<and> partition_index_consistent s"
    and tm: "map_of (get_txn_tablet_map s tid) (pid, tid) = Some tm"
    and f: "txn_tablet_maps s1 = txn_tablet_maps s" "txn_partition_maps s1 = txn_partition_maps s"
      "txn_map_shard_size s1 = txn_map_shard_size s"
  shows "shards_wf (erase_tablet_info pid tid ti tm s1) \<and>
         partition_index_consistent (erase_tablet_info pid tid ti tm s1)"
proof -
  have 1: "shards_wf s1" "partition_index_consistent s1"
    using inv shards_wf_cong[OF f(1) f(3)] consistent_cong[OF f(1) f(2)] by simp_all
  have 2: "map_of (get_txn_tablet_map s1 tid) (pid, tid) = Some tm"
    using tm get_txn_tablet_map_cong[OF f(1) f(3)] by simp
  show ?thesis
    using erase_preserves_wf[OF 1(1) 2] erase_preserves_consistent[OF 1(2) 2] by simp
qed

lemma delete_cases:
  "snd (delete_txn meta pid tid tab sh uid s) = s \<or>
   (\<exists>tm s1. map_of (get_txn_tablet_map s tid) (pid, tid) = Some tm \<and>
       txn_tablet_maps s1 = txn_tablet_maps s \<and> txn_partition_maps s1 = txn_partition_maps s \<and>
       txn_map_shard_size s1 = txn_map_shard_size s \<and>
       snd (delete_txn meta pid tid tab sh uid s) = erase_tablet_info pid tid (TabletInfo tab sh uid) tm s1)"
proof (cases "map_of (get_txn_tablet_map s tid) (pid, tid)")
  case None
  then show ?thesis by (simp add: delete_txn_def)
next
  case (Some tm)
  define r where "r = (case map_of tm (TabletInfo tab sh uid) of None \<Rightarrow> None | Some li \<Rightarrow> rowset li)"
  show ?thesis
  proof (cases "\<exists>a m. r = Some a \<and> meta = Some m")
    case True
    then obtain a m where am: "r = Some a" "meta = Some m" by blast
    let ?s1 = "add_effect (AddUnusedRowset a)
                 (RowsetMetaManager_remove m uid (rowset_id (rowsets s a)) s)"
    have "snd (delete_txn meta pid tid tab sh uid s) = s \<or>
          snd (delete_txn meta pid tid tab sh uid s) =
            erase_tablet_info pid tid (TabletInfo tab sh uid) tm ?s1"
      using Some am by (simp add: delete_txn_def Let_def r_def[symmetric])
    moreover have "txn_tablet_maps ?s1 = txn_tablet_maps s \<and>
       txn_partition_maps ?s1 = txn_partition_maps s \<and>
       txn_map_shard_size ?s1 = txn_map_shard_size s" by simp
    ultimately show ?thesis using Some by blast
  next
    case False
    then have "snd (delete_txn meta pid tid tab sh uid s) =
            erase_tablet_info pid tid (TabletInfo tab sh uid) tm s"
      using Some by (auto simp: delete_txn_def Let_def r_def[symmetric] split: option.splits)
    then show ?thesis using Some by blast
  qed
qed

lemma delete_inv:
  assumes "shards_wf s \<and> partition_index_consistent s"
  shows "shards_wf (snd (delete_txn meta pid tid tab sh uid s)) \<and>
         partition_index_consistent (snd (delete_txn meta pid tid tab sh uid s))"
  using delete_cases[of meta pid tid tab sh uid s] assms erase_inv_cong[OF assms]
  by (elim disjE exE conjE) simp_all

lemma force_rollback_fold_inv:
  assumes "shards_wf s \<and> partition_index_consistent s"
  shows "shards_wf (fold (force_rollback_shard meta ti) is s) \<and>
         partition_index_consistent (fold (force_rollback_shard meta ti) is s)"
  using assms
proof (induction "is" arbitrary: s)
  case Nil
  then show ?case by simp
next
  case (Cons i "is")
  have "shards_wf (force_rollback_shard meta ti i s) \<and>
        partition_index_consistent (force_rollback_shard meta ti i s)"
    using Cons.prems force_rollback_shard_wf force_rollback_shard_consistent by blast
  from Cons.IH[OF this] show ?case by simp
qed

lemma force_rollback_inv:
  assumes "shards_wf s \<and> partition_index_consistent s"
  shows "shards_wf (force_rollback_tablet_related_txns meta tab sh uid s) \<and>
         partition_index_consistent (force_rollback_tablet_related_txns meta tab sh uid s)"
  unfolding force_rollback_tablet_related_txns_def by (rule force_rollback_fold_inv[OF assms])

lemma new_inv:
  "shards_wf (new_TxnManager n heap stores) \<and> partition_index_consistent (new_TxnManager n heap stores)"
  by (simp add: new_TxnManager_def shards_wf_def partition_index_consistent_def shard_consistent_def
      partitions_of_def)

lemma reachable_inv:
  "reachable s \<Longrightarrow> shards_wf s \<and> partition_index_consistent s"
proof (induction rule: reachable.induct)
  case (reach_new n heap stores)
  show ?case by (rule new_inv)
next
  case (reach_prepare s max_running now partition_id transaction_id tid shash uid lid ing)
  then show ?case by (intro prepare_inv)
next
  case (reach_commit s save_status recovered now meta partition_id transaction_id tid shash uid lid
        rowset_ptr is_recovery st s')
  then show ?case using commit_inv by blast
next
  case (reach_publish s io meta partition_id transaction_id tid shash uid ver)
  then show ?case by (intro publish_inv)
next
  case (reach_rollback s partition_id transaction_id tid shash uid)
  then show ?case by (intro rollback_inv)
next
  case (reach_delete s meta_opt partition_id transaction_id tid shash uid)
  then show ?case by (intro delete_inv)
next
  case (reach_force_rollback s meta_opt tid shash uid)
  then show ?case by (intro force_rollback_inv)
qed

subsection \<open>Entries that hold a rowset have valid identifiers\<close>

lemma set_update_cases:
  "(k', v') \<in> set (AList.update k v xs) \<Longrightarrow> (k', v') \<in> set xs \<or> (k' = k \<and> v' = v)"
  by (induction xs) (auto split: if_splits)

lemma set_map_entry_cases:
  "(k', v') \<in> set (AList.map_entry k f xs) \<Longrightarrow>
   (k', v') \<in> set xs \<or> (k' = k \<and> (\<exists>v. (k, v) \<in> set xs \<and> v' = f v))"
  by (induction xs) (auto split: if_splits)

lemma set_delete_subset: "set (AList.delete k xs) \<subseteq> set xs"
  by (auto simp: AList.delete_eq)

lemma set_assign_load_info_cases:
  assumes "(k, tm) \<in> set (assign_load_info key ti li m)"
  shows "(k, tm) \<in> set m \<or>
         (k = key \<and> (tm = [] \<or> tm = [(ti, li)] \<or>
            (\<exists>tm0. (key, tm0) \<in> set m \<and> tm = AList.update ti li tm0)))"
proof (cases "map_of m key")
  case None
  then have "(k, tm) \<in> set (AList.map_entry key (AList.update ti li) (AList.update key [] m))"
    using assms by (simp add: assign_load_info_def)
  from set_map_entry_cases[OF this] show ?thesis
    using set_update_cases[of _ _ key "[]" m] by fastforce
next
  case (Some a)
  then have "(k, tm) \<in> set (AList.map_entry key (AList.update ti li) m)"
    using assms by (simp add: assign_load_info_def)
  from set_map_entry_cases[OF this] show ?thesis by blast
qed

lemma entry_ids_valid_Nil [simp]: "entry_ids_valid key []"
  by (simp add: entry_ids_valid_def)

lemma entry_ids_valid_update:
  "entry_ids_valid key tm \<Longrightarrow> (rowset li \<noteq> None \<longrightarrow> 1 \<le> fst key \<and> 1 \<le> snd key \<and> 1 \<le> tablet_id ti) \<Longrightarrow>
   entry_ids_valid key (AList.update ti li tm)"
  unfolding entry_ids_valid_def using set_update_cases[of _ _ ti li tm] by fastforce

lemma entry_ids_valid_delete: "entry_ids_valid key tm \<Longrightarrow> entry_ids_valid key (AList.delete ti tm)"
  unfolding entry_ids_valid_def using set_delete_subset[of ti tm] by fastforce

lemma committed_ids_validI:
  "(\<And>i key tm. (key, tm) \<in> set (txn_tablet_maps s i) \<Longrightarrow> entry_ids_valid key tm) \<Longrightarrow>
   committed_ids_valid s"
  unfolding committed_ids_valid_def by blast

lemma committed_ids_validD:
  "committed_ids_valid s \<Longrightarrow> (key, tm) \<in> set (txn_tablet_maps s i) \<Longrightarrow> entry_ids_valid key tm"
  unfolding committed_ids_valid_def by blast

lemma committed_ids_valid_cong:
  "txn_tablet_maps s' = txn_tablet_maps s \<Longrightarrow> committed_ids_valid s' = committed_ids_valid s"
  by (simp add: committed_ids_valid_def)

lemma install_ids_valid:
  assumes v: "committed_ids_valid s"
    and li: "rowset li \<noteq> None \<longrightarrow> 1 \<le> pid \<and> 1 \<le> tid \<and> 1 \<le> tablet_id ti"
  shows "committed_ids_valid (install_load_info pid tid ti li s)"
proof (rule committed_ids_validI)
  fix i key tm
  assume a: "(key, tm) \<in> set (txn_tablet_maps (install_load_info pid tid ti li s) i)"
  show "entry_ids_valid key tm"
  proof (cases "i = shard_index (txn_map_shard_size s) tid")
    case False
    then have "(key, tm) \<in> set (txn_tablet_maps s i)"
      using a by (simp add: install_load_info_def)
    then show ?thesis by (rule committed_ids_validD[OF v])
  next
    case True
    then have "(key, tm) \<in> set (assign_load_info (pid, tid) ti li (txn_tablet_maps s i))"
      using a by (simp add: install_load_info_def get_txn_tablet_map_def)
    from set_assign_load_info_cases[OF this]
    consider "(key, tm) \<in> set (txn_tablet_maps s i)" | "key = (pid, tid)" "tm = []"
      | "key = (pid, tid)" "tm = [(ti, li)]"
      | tm0 where "key = (pid, tid)" "((pid, tid), tm0) \<in> set (txn_tablet_maps s i)"
          "tm = AList.update ti li tm0"
      by blast
    then show ?thesis
    proof cases
      case 1
      then show ?thesis by (rule committed_ids_validD[OF v])
    next
      case 2
      then show ?thesis by simp
    next
      case 3
      then show ?thesis using li by (simp add: entry_ids_valid_def)
    next
      case 4
      have "entry_ids_valid (pid, tid) tm0" by (rule committed_ids_validD[OF v 4(2)])
      then show ?thesis unfolding 4(1) 4(3) using li by (intro entry_ids_valid_update) simp_all
    qed
  qed
qed

lemma erase_ids_valid:
  assumes v: "committed_ids_valid s"
    and tm: "map_of (get_txn_tablet_map s tid) (pid, tid) = Some tm"
  shows "committed_ids_valid (erase_tablet_info pid tid ti tm s)"
proof (rule committed_ids_validI)
  fix i key tm'
  let ?m = "txn_tablet_maps s (shard_index (txn_map_shard_size s) tid)"
  assume a: "(key, tm') \<in> set (txn_tablet_maps (erase_tablet_info pid tid ti tm s) i)"
  have mem: "((pid, tid), tm) \<in> set ?m"
    using tm by (auto simp: get_txn_tablet_map_def dest: map_of_SomeD)
  have "(key, tm') \<in> set (txn_tablet_maps s i) \<or> (key = (pid, tid) \<and> tm' = AList.delete ti tm)"
    using a set_delete_subset[of "(pid, tid)" ?m]
      set_update_cases[of key tm' "(pid, tid)" "AList.delete ti tm" ?m]
    by (auto simp: erase_tablet_info_def Let_def get_txn_tablet_map_def split: if_splits)
  then show "entry_ids_valid key tm'"
    using committed_ids_validD[OF v] committed_ids_validD[OF v mem] entry_ids_valid_delete by blast
qed

lemma force_rollback_shard_ids_valid:
  assumes v: "committed_ids_valid s"
  shows "committed_ids_valid (force_rollback_shard meta ti i s)"
proof (rule committed_ids_validI)
  fix j key tm
  assume a: "(key, tm) \<in> set (txn_tablet_maps (force_rollback_shard meta ti i s) j)"
  then have "(key, tm) \<in> set (txn_tablet_maps s j) \<or>
             (\<exists>tm0. (key, tm0) \<in> set (txn_tablet_maps s i) \<and> tm = AList.delete ti tm0)"
    by (auto simp: force_rollback_shard_fields split: if_splits)
  then show "entry_ids_valid key tm"
    using committed_ids_validD[OF v] entry_ids_valid_delete by blast
qed


lemma prepare_ids_valid:
  assumes "committed_ids_valid s"
  shows "committed_ids_valid (snd (prepare_txn mx now pid tid tab sh uid lid ing s))"
  using prepare_cases[of mx now pid tid tab sh uid lid ing s] assms
    install_ids_valid[OF assms, of "new_TabletTxnInfo now lid None ing" pid tid "TabletInfo tab sh uid"]
  by (auto simp: new_TabletTxnInfo_def)

lemma commit_ids_valid:
  assumes v: "committed_ids_valid s"
    and c: "commit_txn sv rc now meta pid tid tab sh uid lid rp isr s = Some (st, s')"
  shows "committed_ids_valid s'"
proof -
  have valid: "1 \<le> pid \<and> 1 \<le> tid \<and> 1 \<le> tab"
    using c by (auto simp: commit_txn_def split: if_splits)
  obtain s1 where s1: "txn_tablet_maps s1 = txn_tablet_maps s"
    and s': "s' = s1 \<or> (\<exists>li. s' = install_load_info pid tid (TabletInfo tab sh uid) li s1)"
    using commit_cases[OF c] by blast
  have 1: "committed_ids_valid s1" using v committed_ids_valid_cong[OF s1] by simp
  from s' show ?thesis
    using 1 install_ids_valid[OF 1, of _ pid tid "TabletInfo tab sh uid"] valid by auto
qed

lemma publish_ids_valid:
  assumes v: "committed_ids_valid s"
  shows "committed_ids_valid (snd (publish_txn io meta pid tid tab sh uid ver s))"
proof -
  obtain s4 where f: "txn_tablet_maps s4 = txn_tablet_maps s" "txn_map_shard_size s4 = txn_map_shard_size s"
    and c: "snd (publish_txn io meta pid tid tab sh uid ver s) = s4 \<or>
         snd (publish_txn io meta pid tid tab sh uid ver s) =
           publish_remove pid tid (TabletInfo tab sh uid) s4"
    using publish_cases by blast
  have 1: "committed_ids_valid s4" using v committed_ids_valid_cong[OF f(1)] by simp
  have "committed_ids_valid (publish_remove pid tid (TabletInfo tab sh uid) s4)"
    using 1 erase_ids_valid[OF 1]
    by (simp add: publish_remove_def split: option.splits)
  with c 1 show ?thesis by metis
qed

lemma rollback_ids_valid:
  assumes v: "committed_ids_valid s"
  shows "committed_ids_valid (snd (rollback_txn pid tid tab sh uid s))"
  using v erase_ids_valid[OF v]
  by (simp add: rollback_txn_def Let_def split: option.splits)

lemma delete_ids_valid:
  assumes v: "committed_ids_valid s"
  shows "committed_ids_valid (snd (delete_txn meta pid tid tab sh uid s))"
proof -
  from delete_cases[of meta pid tid tab sh uid s]
  consider "snd (delete_txn meta pid tid tab sh uid s) = s"
    | tm s1 where "map_of (get_txn_tablet_map s tid) (pid, tid) = Some tm"
       "txn_tablet_maps s1 = txn_tablet_maps s" "txn_map_shard_size s1 = txn_map_shard_size s"
       "snd (delete_txn meta pid tid tab sh uid s) = erase_tablet_info pid tid (TabletInfo tab sh uid) tm s1"
    by blast
  then show ?thesis
  proof cases
    case 1
    then show ?thesis using v by simp
  next
    case 2
    have a: "committed_ids_valid s1" using v committed_ids_valid_cong[OF 2(2)] by simp
    have b: "map_of (get_txn_tablet_map s1 tid) (pid, tid) = Some tm"
      using 2(1) get_txn_tablet_map_cong[OF 2(2) 2(3)] by simp
    show ?thesis unfolding 2(4) by (rule erase_ids_valid[OF a b])
  qed
qed

lemma force_rollback_ids_valid:
  assumes "committed_ids_valid s"
  shows "committed_ids_valid (force_rollback_tablet_related_txns meta tab sh uid s)"
proof -
  have "committed_ids_valid s \<Longrightarrow> committed_ids_valid (fold (force_rollback_shard meta ti) is s)"
    for ti "is" s
    by (induction "is" arbitrary: s) (simp_all add: force_rollback_shard_ids_valid)
  then show ?thesis using assms by (simp add: force_rollback_tablet_related_txns_def)
qed

text \<open>
  \<open>set_txn_related_delete_bitmap\<close> keeps the rowset of the entry it writes to, so it
  preserves the property too, and the property holds in every state of the ledger.
\<close>

lemma set_txn_related_delete_bitmap_ids_valid:
  assumes v: "committed_ids_valid s"
    and c: "set_txn_related_delete_bitmap pid tid tab sh uid mow bitmap ids s = Some s'"
  shows "committed_ids_valid s'"
proof (cases "map_of (get_txn_tablet_map s tid) (pid, tid)")
  case None
  then show ?thesis using c v by (simp add: set_txn_related_delete_bitmap_def)
next
  case (Some tm)
  let ?ti = "TabletInfo tab sh uid"
  let ?m = "txn_tablet_maps s (shard_index (txn_map_shard_size s) tid)"
  obtain li where li: "map_of tm ?ti = Some li"
    using c Some by (cases "map_of tm ?ti") (simp_all add: set_txn_related_delete_bitmap_def)
  let ?li' = "li\<lparr>unique_key_merge_on_write := mow, delete_bitmap := bitmap, rowset_ids := ids\<rparr>"
  have s': "s' = set_txn_tablet_map tid
                   (AList.update (pid, tid) (AList.update ?ti ?li' tm) (get_txn_tablet_map s tid)) s"
    using c Some li by (simp add: set_txn_related_delete_bitmap_def)
  have mem: "((pid, tid), tm) \<in> set ?m"
    using Some by (auto simp: get_txn_tablet_map_def dest: map_of_SomeD)
  have old: "entry_ids_valid (pid, tid) tm" by (rule committed_ids_validD[OF v mem])
  have "rowset li \<noteq> None \<longrightarrow> 1 \<le> pid \<and> 1 \<le> tid \<and> 1 \<le> tablet_id ?ti"
    using old map_of_SomeD[OF li] by (auto simp: entry_ids_valid_def)
  then have new: "entry_ids_valid (pid, tid) (AList.update ?ti ?li' tm)"
    using old by (intro entry_ids_valid_update) simp_all
  show ?thesis
  proof (rule committed_ids_validI)
    fix i key tm'
    assume "(key, tm') \<in> set (txn_tablet_maps s' i)"
    then have "(key, tm') \<in> set (txn_tablet_maps s i) \<or>
               (key = (pid, tid) \<and> tm' = AList.update ?ti ?li' tm)"
      using set_update_cases[of key tm' "(pid, tid)" "AList.update ?ti ?li' tm" ?m]
      by (auto simp: s' get_txn_tablet_map_def split: if_splits)
    then show "entry_ids_valid key tm'"
      using committed_ids_validD[OF v] new by blast
  qed
qed

lemma ledger_state_ids_valid: "ledger_state s \<Longrightarrow> committed_ids_valid s"
proof (induction rule: ledger_state.induct)
  case (ledger_new n heap stores)
  show ?case by (simp add: new_TxnManager_def committed_ids_valid_def)
next
  case (ledger_prepare s max_running now partition_id transaction_id tid shash uid lid ing)
  then show ?case by (intro prepare_ids_valid)
next
  case (ledger_commit s save_status recovered now meta partition_id transaction_id tid shash uid lid
        rowset_ptr is_recovery st s')
  then show ?case using commit_ids_valid by blast
next
  case (ledger_publish s io meta partition_id transaction_id tid shash uid ver)
  then show ?case by (intro publish_ids_valid)
next
  case (ledger_rollback s partition_id transaction_id tid shash uid)
  then show ?case by (intro rollback_ids_valid)
next
  case (ledger_delete s meta_opt partition_id transaction_id tid shash uid)
  then show ?case by (intro delete_ids_valid)
next
  case (ledger_force_rollback s meta_opt tid shash uid)
  then show ?case by (intro force_rollback_ids_valid)
next
  case (ledger_set_delete_bitmap s partition_id transaction_id tid shash uid merge_on_write bitmap
        ids s')
  then show ?case using set_txn_related_delete_bitmap_ids_valid by blast
qed

lemma reachable_ledger_state: "reachable s \<Longrightarrow> ledger_state s"
  by (induction rule: reachable.induct) (auto intro: ledger_state.intros)

lemma committed_ids_valid_entry:
  assumes "committed_ids_valid s"
    and "find_load_info s (pid, tid) ti = Some li" and "rowset li \<noteq> None"
  shows "1 \<le> pid \<and> 1 \<le> tid \<and> 1 \<le> tablet_id ti"
proof -
  obtain tm where tm: "map_of (get_txn_tablet_map s tid) (pid, tid) = Some tm" "map_of tm ti = Some li"
    using assms(2) by (auto simp: find_load_info_def split: option.splits)
  have "((pid, tid), tm) \<in> set (txn_tablet_maps s (shard_index (txn_map_shard_size s) tid))"
    using tm(1) by (auto simp: get_txn_tablet_map_def dest: map_of_SomeD)
  from committed_ids_validD[OF assms(1) this]
  show ?thesis using map_of_SomeD[OF tm(2)] assms(3) by (auto simp: entry_ids_valid_def)
qed

lemma ledger_state_committed_ids:
  assumes "ledger_state s"
    and "find_load_info s (pid, tid) ti = Some li" and "rowset li \<noteq> None"
  shows "1 \<le> pid \<and> 1 \<le> tid \<and> 1 \<le> tablet_id ti"
  by (rule committed_ids_valid_entry[OF ledger_state_ids_valid[OF assms(1)] assms(2,3)])

subsection \<open>The example ledgers are reachable\<close>

lemmas ledger_defs =
  install_load_info_def get_txn_tablet_map_def get_txn_partition_map_def set_txn_tablet_map_def
  set_txn_partition_map_def shard_index_def map_size_def insert_txn_partition_map_unlocked_def
  clear_txn_partition_map_unlocked_def assign_load_info_def erase_tablet_info_def
  find_load_info_def add_effect_def RowsetMetaManager_save_def RowsetMetaManager_remove_def
  new_TabletTxnInfo_def example_tablet_info_def example_rowsets_def

lemmas example_defs = example_new_def example_prepared_def example_committed_def
  example_versioned_def example_busy_def example_busy_committed_def example_two_shards_def
  example_tablet_def
  example_io_ok_def example_io_unknown_tablet_def example_io_binlog_fails_def new_TxnManager_def

lemma example_prepared_eq:
  "prepare_txn 100 0 1 100 5 1 (7, 7) (9, 9) False example_new = (OK, example_prepared)"
  by (simp add: prepare_txn_def example_new_def example_prepared_def new_TxnManager_def
      ledger_defs Let_def)

lemma example_committed_eq:
  "commit_txn OK None 0 0 1 100 5 1 (7, 7) (9, 9) (Some 1) False example_prepared =
     Some (OK, example_committed)"
  by (simp add: commit_txn_def commit_find_duplicate_def example_prepared_def
      example_committed_def ledger_defs Let_def)

lemma example_prepared_reachable: "reachable example_prepared"
proof -
  have "reachable example_new"
    unfolding example_new_def by (rule reach_new) simp
  from reach_prepare[OF this, of 100 0 1 100 5 1 "(7, 7)" "(9, 9)" False]
  show ?thesis by (simp add: example_prepared_eq)
qed

lemma example_committed_reachable: "reachable example_committed"
  by (rule reach_commit[OF example_prepared_reachable example_committed_eq])

lemma example_committed_entry:
  "find_load_info example_committed (1, 100) (TabletInfo 5 1 (7, 7)) =
     Some (new_TabletTxnInfo 0 (9, 9) (Some 1) False)"
  by (simp add: example_committed_def find_load_info_def get_txn_tablet_map_def shard_index_def
      example_tablet_info_def)

lemma example_busy_reachable: "reachable example_busy"
proof -
  have "reachable example_new"
    unfolding example_new_def by (rule reach_new) simp
  from reach_prepare[OF this, of 1 0 1 102 5 1 "(7, 7)" "(8, 8)" False]
  show ?thesis
    by (simp add: prepare_txn_def example_defs ledger_defs Let_def)
qed

lemma example_busy_committed_reachable: "reachable example_busy_committed"
proof -
  have c: "commit_txn OK None 0 0 1 100 5 1 (7, 7) (9, 9) (Some 1) False
             (snd (prepare_txn 1 0 1 100 5 1 (7, 7) (9, 9) False example_busy)) =
           Some (OK, example_busy_committed)"
    by (simp add: prepare_txn_def commit_txn_def commit_find_duplicate_def example_defs
        ledger_defs Let_def)
  show ?thesis
    by (rule reach_commit[OF reach_prepare[OF example_busy_reachable] c])
qed

lemma example_two_shards_reachable: "reachable example_two_shards"
proof -
  have "reachable example_prepared" by (rule example_prepared_reachable)
  from reach_prepare[OF this, of 1 0 1 101 5 1 "(7, 7)" "(8, 8)" False]
  show ?thesis
    by (simp add: prepare_txn_def example_defs ledger_defs Let_def fun_upd_twist)
qed

subsection \<open>The partition index is consistent with the transaction map\<close>

text \<open>
  Claim C10. In every state of the ledger, that is after any sequence of \<open>prepare_txn\<close>,
  \<open>commit_txn\<close>, \<open>publish_txn\<close>, \<open>rollback_txn\<close>, \<open>delete_txn\<close> and
  \<open>force_rollback_tablet_related_txns\<close> calls on a fresh manager, the partition index of
  every shard maps a transaction id to a partition id if and only if the shard's
  transaction map holds a non-empty tablet map under the key (partition id, transaction
  id).
\<close>

theorem partition_index_consistent_after_mutations:
  "reachable s \<Longrightarrow> partition_index_consistent s"
  using reachable_inv by blast

text \<open>
  The theorem at the ledger reached by one prepare and one commit: partition 1 is
  registered for transaction 100, and the key (1, 100) holds a tablet map.
\<close>

theorem partition_index_consistent_after_mutations_witness:
  "reachable example_committed \<and> partition_index_consistent example_committed \<and>
   1 \<in> partitions_of (txn_partition_maps example_committed 0) 100 \<and>
   map_of (txn_tablet_maps example_committed 0) (1, 100) \<noteq> None"
  using partition_index_consistent_after_mutations[OF example_committed_reachable]
    example_committed_reachable
  by (simp add: example_committed_def partitions_of_def)

subsection \<open>Duplicate commits\<close>

text \<open>
  Claim C2. For every entry of the ledger that already holds a rowset, \<open>commit_txn\<close>
  with the entry's load id and a rowset of the same rowset id returns success and leaves
  the whole state unchanged; with the entry's load id and a rowset of a different rowset
  id it returns \<open>PUSH_TRANSACTION_ALREADY_EXIST\<close> and leaves the whole state, and with
  it the stored rowset, unchanged. The state is arbitrary. The identifiers are those
  with which \<open>commit_txn\<close> returns at all (for an identifier below 1, \<open>LOG(FATAL)\<close> ends
  the process before the ledger is read); by \<open>ledger_state_committed_ids\<close> these are
  the identifiers of every entry that holds a rowset, in every state that the
  operations of the ledger produce.
\<close>

theorem commit_duplicate_rowset:
  assumes "find_load_info s (pid, tid) (TabletInfo tab sh uid) = Some li"
    and "rowset li = Some r"
    and "load_id li = lid"
    and "1 \<le> pid \<and> 1 \<le> tid \<and> 1 \<le> tab"
  shows "commit_txn sv rc now meta pid tid tab sh uid lid (Some rp) isr s =
           Some (if rowset_id (rowsets s r) = rowset_id (rowsets s rp)
                 then OK else PUSH_TRANSACTION_ALREADY_EXIST, s)"
proof -
  have dup: "commit_find_duplicate s (pid, tid) (TabletInfo tab sh uid) lid rp =
          Some (if rowset_id (rowsets s r) = rowset_id (rowsets s rp)
                 then OK else PUSH_TRANSACTION_ALREADY_EXIST)"
    using assms(1,2,3) by (simp add: commit_find_duplicate_def)
  show ?thesis using assms(4) dup by (simp add: commit_txn_def)
qed

text \<open>
  The committed example holds the rowset at address 1: committing that rowset again
  succeeds, committing the rowset at address 2 (another rowset id) is refused, and the
  state is the same after both.
\<close>

theorem commit_duplicate_rowset_witness:
  "find_load_info example_committed (1, 100) (TabletInfo 5 1 (7, 7)) =
     Some (new_TabletTxnInfo 0 (9, 9) (Some 1) False) \<and>
   commit_txn OK None 5 0 1 100 5 1 (7, 7) (9, 9) (Some 1) False example_committed =
     Some (OK, example_committed) \<and>
   commit_txn OK None 5 0 1 100 5 1 (7, 7) (9, 9) (Some 2) False example_committed =
     Some (PUSH_TRANSACTION_ALREADY_EXIST, example_committed)"
proof -
  have r: "rowset (new_TabletTxnInfo 0 (9, 9) (Some 1) False) = Some 1"
    and l: "load_id (new_TabletTxnInfo 0 (9, 9) (Some 1) False) = (9, 9)"
    by (simp_all add: new_TabletTxnInfo_def)
  have i: "(1::int) \<le> 1 \<and> (1::int) \<le> 100 \<and> (1::int) \<le> 5" by simp
  show ?thesis
    using commit_duplicate_rowset[OF example_committed_entry r l i, of OK None 5 0 1 False]
      commit_duplicate_rowset[OF example_committed_entry r l i, of OK None 5 0 2 False]
      example_committed_entry
    by (simp add: example_committed_def example_rowsets_def)
qed

subsection \<open>Rollback of a committed entry\<close>

text \<open>
  Claim C4. For every entry whose rowset is not null, \<open>rollback_txn\<close> fails with
  \<open>TRANSACTION_ALREADY_COMMITTED\<close> and returns the state unchanged: the entry, the rest
  of the ledger, the stores and the trace are as before, so rollback never removes an
  entry that holds a rowset.
\<close>

theorem rollback_committed_refused:
  assumes "find_load_info s (pid, tid) (TabletInfo tab sh uid) = Some li"
    and "rowset li \<noteq> None"
  shows "rollback_txn pid tid tab sh uid s = (TRANSACTION_ALREADY_COMMITTED, s)"
  using assms by (auto simp: rollback_txn_def find_load_info_def split: option.splits)

theorem rollback_committed_refused_witness:
  "find_load_info example_committed (1, 100) (TabletInfo 5 1 (7, 7)) =
     Some (new_TabletTxnInfo 0 (9, 9) (Some 1) False) \<and>
   rowset (new_TabletTxnInfo 0 (9, 9) (Some 1) False) \<noteq> None \<and>
   rollback_txn 1 100 5 1 (7, 7) example_committed =
     (TRANSACTION_ALREADY_COMMITTED, example_committed)"
  using rollback_committed_refused[OF example_committed_entry]
    example_committed_entry
  by (simp add: new_TabletTxnInfo_def)

subsection \<open>Publish without a committed rowset\<close>

text \<open>
  Claim C5, as the code has it. \<open>publish_txn\<close> first asks the tablet manager for the
  tablet. When the tablet is unknown, it returns success at once and leaves the state
  unchanged, whatever the ledger holds. When the tablet is known and the ledger holds
  no entry with a rowset for the (partition, transaction, tablet) key, it fails with
  \<open>TRANSACTION_NOT_EXIST\<close> and leaves the state unchanged.
\<close>

theorem publish_without_rowset:
  "(io_get_tablet io = None \<longrightarrow>
      publish_txn io meta pid tid tab sh uid ver s = (OK, s)) \<and>
   (io_get_tablet io \<noteq> None \<and>
    (\<forall>li. find_load_info s (pid, tid) (TabletInfo tab sh uid) = Some li \<longrightarrow> rowset li = None) \<longrightarrow>
      publish_txn io meta pid tid tab sh uid ver s = (TRANSACTION_NOT_EXIST, s))"
  by (auto simp: publish_txn_def Let_def split: option.splits)

text \<open>
  Both halves on the examples: a known tablet and an entry without a rowset, and an
  unknown tablet with a committed entry.
\<close>

theorem publish_without_rowset_witness:
  "io_get_tablet example_io_ok \<noteq> None \<and>
   find_load_info example_prepared (1, 100) (TabletInfo 5 1 (7, 7)) =
     Some (new_TabletTxnInfo 0 (9, 9) None False) \<and>
   publish_txn example_io_ok 0 1 100 5 1 (7, 7) (2, 2) example_prepared =
     (TRANSACTION_NOT_EXIST, example_prepared) \<and>
   io_get_tablet example_io_unknown_tablet = None \<and>
   publish_txn example_io_unknown_tablet 0 1 100 5 1 (7, 7) (2, 2) example_committed =
     (OK, example_committed)"
proof -
  have f: "find_load_info example_prepared (1, 100) (TabletInfo 5 1 (7, 7)) =
     Some (new_TabletTxnInfo 0 (9, 9) None False)"
    by (simp add: example_defs ledger_defs)
  have t: "io_get_tablet example_io_ok \<noteq> None" by (simp add: example_defs)
  have u: "io_get_tablet example_io_unknown_tablet = None" by (simp add: example_defs)
  have n: "\<forall>li. find_load_info example_prepared (1, 100) (TabletInfo 5 1 (7, 7)) = Some li \<longrightarrow>
             rowset li = None"
    by (simp add: f new_TabletTxnInfo_def)
  show ?thesis
    using publish_without_rowset[of example_io_ok 0 1 100 5 1 "(7, 7)" "(2, 2)" example_prepared]
      publish_without_rowset[of example_io_unknown_tablet 0 1 100 5 1 "(7, 7)" "(2, 2)"
        example_committed]
      f t u n
    by simp
qed

text \<open>
  The claim without the condition on the tablet fails: on a fresh ledger, which has no
  entry at all, a publish for a tablet that the tablet manager does not know returns
  \<open>OK\<close>.
\<close>

theorem publish_unknown_tablet_counterexample:
  "find_load_info example_new (1, 100) (TabletInfo 5 1 (7, 7)) = None \<and>
   publish_txn example_io_unknown_tablet 0 1 100 5 1 (7, 7) (2, 2) example_new = (OK, example_new) \<and>
   fst (publish_txn example_io_unknown_tablet 0 1 100 5 1 (7, 7) (2, 2) example_new) \<noteq>
     TRANSACTION_NOT_EXIST"
  by (simp add: publish_txn_def example_defs ledger_defs Let_def)

subsection \<open>Delete of an entry whose rowset has a version\<close>

lemma erase_tablet_info_fields [simp]:
  "txn_map_shard_size (erase_tablet_info pid tid ti tm s) = txn_map_shard_size s"
  "rowsets (erase_tablet_info pid tid ti tm s) = rowsets s"
  "olap_meta (erase_tablet_info pid tid ti tm s) = olap_meta s"
  "effects (erase_tablet_info pid tid ti tm s) = effects s"
  by (simp_all add: erase_tablet_info_def Let_def)

lemma find_load_info_erase:
  "find_load_info (erase_tablet_info pid tid ti tm s) (pid, tid) ti = None"
  by (simp add: find_load_info_def erase_tablet_info_def Let_def get_txn_tablet_map_def
      delete_conv' update_conv')

text \<open>
  Claim C6, as the code has it. For every entry whose rowset has a version greater than
  0: \<open>delete_txn\<close> called with a metadata store (\<open>meta\<close> not null) fails with
  \<open>TRANSACTION_ALREADY_COMMITTED\<close> and changes nothing; called without one (\<open>meta\<close>
  null) it skips the version check, returns success and drops the entry from the ledger.
  In both cases the persistent metadata store is left as it was.
\<close>

theorem delete_versioned_rowset:
  assumes "find_load_info s (pid, tid) (TabletInfo tab sh uid) = Some li"
    and "rowset li = Some r"
    and "0 < fst (version (rowsets s r))"
  shows "(meta \<noteq> None \<longrightarrow>
            delete_txn meta pid tid tab sh uid s = (TRANSACTION_ALREADY_COMMITTED, s)) \<and>
         (meta = None \<longrightarrow>
            fst (delete_txn meta pid tid tab sh uid s) = OK \<and>
            find_load_info (snd (delete_txn meta pid tid tab sh uid s)) (pid, tid)
              (TabletInfo tab sh uid) = None) \<and>
         olap_meta (snd (delete_txn meta pid tid tab sh uid s)) = olap_meta s"
proof -
  obtain tm where tm: "map_of (get_txn_tablet_map s tid) (pid, tid) = Some tm"
    "map_of tm (TabletInfo tab sh uid) = Some li"
    using assms(1) by (auto simp: find_load_info_def split: option.splits)
  show ?thesis
  proof (cases meta)
    case None
    then have "delete_txn meta pid tid tab sh uid s =
                 (OK, erase_tablet_info pid tid (TabletInfo tab sh uid) tm s)"
      using tm assms(2) by (simp add: delete_txn_def)
    then show ?thesis using None by (simp add: find_load_info_erase)
  next
    case (Some m)
    then have "delete_txn meta pid tid tab sh uid s = (TRANSACTION_ALREADY_COMMITTED, s)"
      using tm assms(2,3) by (simp add: delete_txn_def)
    then show ?thesis using Some by simp
  qed
qed

lemma example_versioned_entry:
  "find_load_info example_versioned (1, 100) (TabletInfo 5 1 (7, 7)) =
     Some (new_TabletTxnInfo 0 (9, 9) (Some 3) False)"
  by (simp add: example_defs ledger_defs)

theorem delete_versioned_rowset_witness:
  "find_load_info example_versioned (1, 100) (TabletInfo 5 1 (7, 7)) =
     Some (new_TabletTxnInfo 0 (9, 9) (Some 3) False) \<and>
   0 < fst (version (rowsets example_versioned 3)) \<and>
   delete_txn (Some 0) 1 100 5 1 (7, 7) example_versioned =
     (TRANSACTION_ALREADY_COMMITTED, example_versioned) \<and>
   olap_meta (snd (delete_txn None 1 100 5 1 (7, 7) example_versioned)) 0 ((7, 7), 3) =
     Some (example_rowsets 3)"
proof -
  have r: "rowset (new_TabletTxnInfo 0 (9, 9) (Some 3) False) = Some 3"
    by (simp add: new_TabletTxnInfo_def)
  have v: "0 < fst (version (rowsets example_versioned 3))"
    by (simp add: example_defs ledger_defs)
  show ?thesis
    using delete_versioned_rowset[OF example_versioned_entry r v, of "Some 0"]
      delete_versioned_rowset[OF example_versioned_entry r v, of None]
      example_versioned_entry v
    by (simp add: example_versioned_def)
qed

text \<open>
  The claim without the condition on \<open>meta\<close> fails: the example entry's rowset has
  version 2, and \<open>delete_txn\<close> with a null \<open>meta\<close> returns \<open>OK\<close>.
\<close>

theorem delete_without_meta_counterexample:
  "find_load_info example_versioned (1, 100) (TabletInfo 5 1 (7, 7)) =
     Some (new_TabletTxnInfo 0 (9, 9) (Some 3) False) \<and>
   0 < fst (version (rowsets example_versioned 3)) \<and>
   fst (delete_txn None 1 100 5 1 (7, 7) example_versioned) = OK \<and>
   fst (delete_txn None 1 100 5 1 (7, 7) example_versioned) \<noteq> TRANSACTION_ALREADY_COMMITTED"
  by (simp add: delete_txn_def example_defs ledger_defs Let_def)

subsection \<open>Prepare above the ceiling\<close>

text \<open>
  Claim C9, as the code has it. The count that \<open>prepare_txn\<close> compares with the ceiling
  is the number of transaction ids in the partition index of the transaction's shard,
  not the number of transactions of the partition.
  When it exceeds the ceiling, \<open>prepare_txn\<close> inserts nothing and leaves the state
  unchanged; it fails with \<open>TOO_MANY_TRANSACTIONS\<close>, unless the entry already exists with
  the same load id and a rowset: that duplicate is recognised before the ceiling is
  checked, and the call returns success.
\<close>

theorem prepare_over_ceiling:
  assumes "max_running < map_size (get_txn_partition_map s tid)"
  shows "prepare_txn max_running now pid tid tab sh uid lid ing s =
           (if (case find_load_info s (pid, tid) (TabletInfo tab sh uid) of
                  None \<Rightarrow> False
                | Some li \<Rightarrow> load_id li = lid \<and> rowset li \<noteq> None)
            then OK else TOO_MANY_TRANSACTIONS, s)"
  using assms by (auto simp: prepare_txn_def Let_def prod_eq_iff split: option.splits)

theorem prepare_over_ceiling_witness:
  "(1::nat) < map_size (get_txn_partition_map example_busy_committed 104) \<and>
   prepare_txn 1 0 1 104 5 1 (7, 7) (6, 6) False example_busy_committed =
     (TOO_MANY_TRANSACTIONS, example_busy_committed) \<and>
   prepare_txn 1 0 1 100 5 1 (7, 7) (9, 9) False example_busy_committed =
     (OK, example_busy_committed)"
proof -
  have a: "(1::nat) < map_size (get_txn_partition_map example_busy_committed 104)"
    by (simp add: example_defs ledger_defs)
  have b: "(1::nat) < map_size (get_txn_partition_map example_busy_committed 100)"
    by (simp add: example_defs ledger_defs)
  show ?thesis
    using prepare_over_ceiling[OF a, of 0 1 5 1 "(7, 7)" "(6, 6)" False]
      prepare_over_ceiling[OF b, of 0 1 5 1 "(7, 7)" "(9, 9)" False] a
    by (simp add: example_defs ledger_defs)
qed

text \<open>
  The claim as the spec words it fails in two ways. With two shards and ceiling 1,
  partition 1 has the open transactions 100 (shard 0) and 101 (shard 1): its count, 2,
  exceeds the ceiling, yet the prepare of transaction 103 is accepted and inserts its
  entry, because the partition index of shard 1 holds one transaction only. And in the
  ledger where one shard tracks transactions 102 and 100 of partition 1, the repeated
  prepare of the committed transaction 100 returns \<open>OK\<close>. Both ledgers are reached with
  ceiling 1.
\<close>

theorem prepare_over_ceiling_counterexample:
  "reachable example_two_shards \<and>
   (1::nat) < partition_txn_count example_two_shards 1 \<and>
   fst (prepare_txn 1 0 1 103 5 1 (7, 7) (6, 6) False example_two_shards) = OK \<and>
   find_load_info (snd (prepare_txn 1 0 1 103 5 1 (7, 7) (6, 6) False example_two_shards))
     (1, 103) (TabletInfo 5 1 (7, 7)) \<noteq> None \<and>
   reachable example_busy_committed \<and>
   (1::nat) < partition_txn_count example_busy_committed 1 \<and>
   fst (prepare_txn 1 0 1 100 5 1 (7, 7) (9, 9) False example_busy_committed) = OK"
proof -
  have a: "(1::nat) < partition_txn_count example_two_shards 1"
    by (simp add: partition_txn_count_def example_defs upt_rec)
  have b: "(1::nat) < partition_txn_count example_busy_committed 1"
    by (simp add: partition_txn_count_def example_defs upt_rec)
  have c: "fst (prepare_txn 1 0 1 103 5 1 (7, 7) (6, 6) False example_two_shards) = OK \<and>
   find_load_info (snd (prepare_txn 1 0 1 103 5 1 (7, 7) (6, 6) False example_two_shards))
     (1, 103) (TabletInfo 5 1 (7, 7)) \<noteq> None"
    by (simp add: prepare_txn_def example_defs ledger_defs Let_def)
  have d: "fst (prepare_txn 1 0 1 100 5 1 (7, 7) (9, 9) False example_busy_committed) = OK"
    by (simp add: prepare_txn_def example_defs ledger_defs Let_def)
  show ?thesis
    using a b c d example_two_shards_reachable example_busy_committed_reachable by simp
qed

subsection \<open>Prepare twice\<close>

lemma map_entry_update_same:
  "AList.map_entry k f (AList.update k v m) = AList.update k (f v) m"
  by (induction m) auto

lemma map_entry_twice:
  "AList.map_entry k f (AList.map_entry k g m) = AList.map_entry k (\<lambda>x. f (g x)) m"
  by (induction m) auto

lemma assign_load_info_twice:
  "assign_load_info key ti li' (assign_load_info key ti li m) = assign_load_info key ti li' m"
proof (cases "map_of m key")
  case None
  then show ?thesis
    by (simp add: assign_load_info_def map_entry_update_same update_conv')
next
  case (Some tm)
  then show ?thesis
    by (simp add: assign_load_info_def map_of_map_entry map_entry_twice)
qed

lemma insert_txn_partition_map_twice:
  "insert_txn_partition_map_unlocked tid pid (insert_txn_partition_map_unlocked tid pid s) =
   insert_txn_partition_map_unlocked tid pid s"
proof (cases "map_of (get_txn_partition_map s tid) tid")
  case None
  then show ?thesis
    by (simp add: insert_txn_partition_map_unlocked_def get_txn_partition_map_def
        set_txn_partition_map_def map_entry_update_same update_conv')
next
  case (Some ps)
  then show ?thesis
    by (simp add: insert_txn_partition_map_unlocked_def get_txn_partition_map_def
        set_txn_partition_map_def map_of_map_entry map_entry_twice)
qed

lemma install_load_info_twice:
  "install_load_info pid tid ti li' (install_load_info pid tid ti li s) =
   install_load_info pid tid ti li' s"
proof -
  let ?i = "shard_index (txn_map_shard_size s) tid"
  have "install_load_info pid tid ti li' (install_load_info pid tid ti li s) =
        insert_txn_partition_map_unlocked tid pid (insert_txn_partition_map_unlocked tid pid
          (set_txn_tablet_map tid
             (assign_load_info (pid, tid) ti li' (get_txn_tablet_map s tid)) s))"
    by (simp add: install_load_info_def insert_txn_partition_map_unlocked_def
        get_txn_partition_map_def get_txn_tablet_map_def set_txn_partition_map_def
        set_txn_tablet_map_def assign_load_info_twice Let_def)
  then show ?thesis
    by (simp add: insert_txn_partition_map_twice install_load_info_def)
qed

lemma find_load_info_install:
  "find_load_info (install_load_info pid tid ti li s) (pid, tid) ti = Some li"
  by (simp add: find_load_info_def install_load_info_def get_txn_tablet_map_def
      map_of_assign_load_info update_conv')

lemma install_load_info_shard_size [simp]:
  "txn_map_shard_size (install_load_info pid tid ti li s) = txn_map_shard_size s"
  by (simp add: install_load_info_def)

text \<open>
  Claim C7, as the code has it. Let \<open>prepare_txn\<close> be called twice in a row with the same
  key, tablet and load id, at clock readings \<open>now\<close> and \<open>now'\<close>. The second call either
  succeeds, and then the ledger is the one that a single call at \<open>now'\<close> produces from
  the initial state (no duplicate entry; an entry without a rowset is created anew, so
  only its creation time can differ from the first call's), or it fails with
  \<open>TOO_MANY_TRANSACTIONS\<close> and changes nothing. With equal clock readings the second call
  never changes the state. The second call succeeds exactly when the first did and
  either the entry was already committed or the shard's partition index, after the
  first call, does not exceed the ceiling.
\<close>

theorem prepare_twice:
  assumes r1: "prepare_txn mx now pid tid tab sh uid lid ing s = (st1, s1)"
    and r2: "prepare_txn mx now' pid tid tab sh uid lid ing s1 = (st2, s2)"
  shows "(st2 = OK \<longrightarrow> s2 = snd (prepare_txn mx now' pid tid tab sh uid lid ing s)) \<and>
         (st2 \<noteq> OK \<longrightarrow> st2 = TOO_MANY_TRANSACTIONS \<and> s2 = s1) \<and>
         (now' = now \<longrightarrow> s2 = s1) \<and>
         (st2 = OK \<longleftrightarrow>
            st1 = OK \<and>
            ((case find_load_info s (pid, tid) (TabletInfo tab sh uid) of
                None \<Rightarrow> False
              | Some li \<Rightarrow> load_id li = lid \<and> rowset li \<noteq> None) \<or>
             map_size (get_txn_partition_map s1 tid) \<le> mx))"
proof -
  let ?ti = "TabletInfo tab sh uid"
  let ?D = "case find_load_info s (pid, tid) ?ti of
              None \<Rightarrow> False
            | Some li \<Rightarrow> fst (load_id li) = fst lid \<and> snd (load_id li) = snd lid \<and> rowset li \<noteq> None"
  have D_eq: "?D \<longleftrightarrow> (case find_load_info s (pid, tid) ?ti of
                None \<Rightarrow> False
              | Some li \<Rightarrow> load_id li = lid \<and> rowset li \<noteq> None)"
    by (simp add: prod_eq_iff split: option.splits)
  show ?thesis
  proof (cases ?D)
    case True
    then have "prepare_txn mx n pid tid tab sh uid lid ing s = (OK, s)" for n
      by (simp add: prepare_txn_def)
    then show ?thesis using r1 r2 True D_eq by simp
  next
    case notD: False
    show ?thesis
    proof (cases "mx < map_size (get_txn_partition_map s tid)")
      case True
      then have "prepare_txn mx n pid tid tab sh uid lid ing s = (TOO_MANY_TRANSACTIONS, s)" for n
        using notD by (simp add: prepare_txn_def)
      then show ?thesis using r1 r2 by simp
    next
      case False
      have once: "prepare_txn mx n pid tid tab sh uid lid ing s =
                    (OK, install_load_info pid tid ?ti (new_TabletTxnInfo n lid None ing) s)" for n
        using notD False by (simp add: prepare_txn_def)
      then have s1: "st1 = OK" "s1 = install_load_info pid tid ?ti (new_TabletTxnInfo now lid None ing) s"
        using r1 by simp_all
      have f1: "find_load_info s1 (pid, tid) ?ti = Some (new_TabletTxnInfo now lid None ing)"
        unfolding s1 by (rule find_load_info_install)
      have twice: "prepare_txn mx now' pid tid tab sh uid lid ing s1 =
                     (if mx < map_size (get_txn_partition_map s1 tid)
                      then (TOO_MANY_TRANSACTIONS, s1)
                      else (OK, install_load_info pid tid ?ti (new_TabletTxnInfo now' lid None ing) s))"
        using f1 by (simp add: prepare_txn_def new_TabletTxnInfo_def s1(2) install_load_info_twice)
      show ?thesis
        using r2 notD unfolding twice once D_eq[symmetric]
        by (auto simp: s1 split: if_splits)
    qed
  qed
qed

lemma example_new_twice:
  "prepare_txn 100 4 1 100 5 1 (7, 7) (9, 9) False example_prepared =
   (OK, example_prepared\<lparr>txn_tablet_maps :=
          (\<lambda>_. [])(0 := [((1, 100), [(example_tablet_info, new_TabletTxnInfo 4 (9, 9) None False)])])\<rparr>)"
  by (simp add: prepare_txn_def example_defs ledger_defs Let_def)

theorem prepare_twice_witness:
  "prepare_txn 100 0 1 100 5 1 (7, 7) (9, 9) False example_new = (OK, example_prepared) \<and>
   fst (prepare_txn 100 4 1 100 5 1 (7, 7) (9, 9) False example_prepared) = OK \<and>
   snd (prepare_txn 100 4 1 100 5 1 (7, 7) (9, 9) False example_prepared) =
     snd (prepare_txn 100 4 1 100 5 1 (7, 7) (9, 9) False example_new) \<and>
   map_size (get_txn_partition_map example_prepared 100) \<le> 100"
proof -
  have size: "map_size (get_txn_partition_map example_prepared 100) \<le> 100"
    by (simp add: example_defs ledger_defs)
  show ?thesis
    using prepare_twice[OF example_prepared_eq example_new_twice] example_prepared_eq
      example_new_twice size
    by simp
qed

lemma example_busy_once:
  "prepare_txn 1 0 1 100 5 1 (7, 7) (9, 9) False example_busy =
     (OK, install_load_info 1 100 (TabletInfo 5 1 (7, 7)) (new_TabletTxnInfo 0 (9, 9) None False)
            example_busy)"
  by (simp add: prepare_txn_def example_defs ledger_defs Let_def)

lemma example_busy_twice:
  "prepare_txn 1 0 1 100 5 1 (7, 7) (9, 9) False
     (install_load_info 1 100 (TabletInfo 5 1 (7, 7)) (new_TabletTxnInfo 0 (9, 9) None False)
            example_busy) =
     (TOO_MANY_TRANSACTIONS,
      install_load_info 1 100 (TabletInfo 5 1 (7, 7)) (new_TabletTxnInfo 0 (9, 9) None False)
            example_busy)"
  by (simp add: prepare_txn_def example_defs ledger_defs Let_def)

text \<open>
  The second call can fail although the first succeeded: with ceiling 1 and a shard that
  already tracks transaction 102, the first prepare of transaction 100 is accepted (one
  transaction does not exceed the ceiling) and the second is refused (two do).
\<close>

theorem prepare_twice_counterexample:
  "reachable example_busy \<and>
   fst (prepare_txn 1 0 1 100 5 1 (7, 7) (9, 9) False example_busy) = OK \<and>
   fst (prepare_txn 1 0 1 100 5 1 (7, 7) (9, 9) False
          (snd (prepare_txn 1 0 1 100 5 1 (7, 7) (9, 9) False example_busy))) =
     TOO_MANY_TRANSACTIONS"
  using example_busy_once example_busy_twice example_busy_reachable by simp

subsection \<open>Publish with binlog replication\<close>

text \<open>
  \<open>publish_txn\<close> for an entry that holds a rowset, on a tablet that the tablet manager
  knows: the five steps in sequence.
\<close>

lemma publish_txn_found:
  assumes "io_get_tablet io = Some tablet"
    and "find_load_info s (pid, tid) (TabletInfo tab sh uid) = Some info"
    and "rowset info = Some r"
  shows "publish_txn io meta pid tid tab sh uid ver s =
     (let s1 = add_effect (MakeVisible r ver)
                 (s\<lparr>rowsets := (rowsets s)(r := make_visible ver (rowsets s r))\<rparr>);
          step2 = (if unique_key_merge_on_write info
                   then publish_update_delete_bitmap io r s1 else (OK, s1));
          s3 = (if is_enable_binlog tablet then add_effect (AddToBinlog r) (snd step2)
                else snd step2);
          s4 = RowsetMetaManager_save meta uid (rowset_id (rowsets s3 r)) (rowsets s3 r)
                 (io_save io) s3
      in if fst step2 \<noteq> OK then (fst step2, snd step2)
         else if is_enable_binlog tablet \<and> io_add_to_binlog io \<noteq> OK
         then (ROWSET_ADD_TO_BINLOG_FAILED, s3)
         else if io_save io \<noteq> OK then (ROWSET_SAVE_FAILED, s4)
         else (io_save io, publish_remove pid tid (TabletInfo tab sh uid) s4))"
  using assms by (simp add: publish_txn_def Let_def)

text \<open>
  If the append to the binlog fails, \<open>publish_txn\<close> fails, the ledger's maps and the
  metadata store are as before, and the rowset object has been marked visible.
\<close>

lemma publish_binlog_failure:
  assumes "io_get_tablet io = Some tablet" and "is_enable_binlog tablet"
    and "find_load_info s (pid, tid) (TabletInfo tab sh uid) = Some info"
    and "rowset info = Some r"
    and "unique_key_merge_on_write info \<longrightarrow>
           fst (publish_update_delete_bitmap io r
                  (add_effect (MakeVisible r ver)
                     (s\<lparr>rowsets := (rowsets s)(r := make_visible ver (rowsets s r))\<rparr>))) = OK"
    and "io_add_to_binlog io \<noteq> OK"
  shows "fst (publish_txn io meta pid tid tab sh uid ver s) = ROWSET_ADD_TO_BINLOG_FAILED"
    and "txn_tablet_maps (snd (publish_txn io meta pid tid tab sh uid ver s)) = txn_tablet_maps s"
    and "txn_partition_maps (snd (publish_txn io meta pid tid tab sh uid ver s)) =
           txn_partition_maps s"
    and "olap_meta (snd (publish_txn io meta pid tid tab sh uid ver s)) = olap_meta s"
    and "rowsets (snd (publish_txn io meta pid tid tab sh uid ver s)) =
           (rowsets s)(r := make_visible ver (rowsets s r))"
  using assms(2,5,6) by (simp_all add: publish_txn_found[OF assms(1,3,4)] Let_def)

text \<open>
  A successful publish on a tablet with binlog replication ends its calls to the
  collaborators with the binlog append followed by the save of the rowset metadata.
\<close>

lemma publish_binlog_before_save:
  assumes "io_get_tablet io = Some tablet" and "is_enable_binlog tablet"
    and "find_load_info s (pid, tid) (TabletInfo tab sh uid) = Some info"
    and "rowset info = Some r"
    and "fst (publish_txn io meta pid tid tab sh uid ver s) = OK"
  shows "\<exists>pre. effects (snd (publish_txn io meta pid tid tab sh uid ver s)) =
                 pre @ [AddToBinlog r, SaveRowsetMeta meta uid (rowset_id (make_visible ver (rowsets s r)))]"
proof -
  have rm: "effects (publish_remove pid tid ti s') = effects s'" for ti s'
    by (simp add: publish_remove_def split: option.splits)
  show ?thesis
    using assms(2,5)
    by (simp add: publish_txn_found[OF assms(1,3,4)] Let_def rm split: if_splits)
qed

text \<open>
  Claim C3. For a publish on a tablet with binlog replication, the binlog append comes
  before the persistence of the rowset metadata, and when the append fails, publish
  fails, the rowset remains unpublished with no partial state exposed, and the ledger
  entry is left intact for a retry. The order, the failure and the untouched ledger maps
  and metadata store are the two lemmas above. The rowset does not stay as it was:
  \<open>make_visible\<close> (step 2) runs before the append (step 3), on the object the ledger
  entry points to. In the committed example the rowset at address 1 has version 0
  before the call; after the publish at version 2 has failed on the binlog, the state is
  the old one except that the rowset carries version 2, and \<open>delete_txn\<close> now refuses
  the entry as already published.
\<close>

theorem publish_binlog_failure_exposes_version:
  "version (rowsets example_committed 1) = (0, 0) \<and>
   publish_txn example_io_binlog_fails 0 1 100 5 1 (7, 7) (2, 2) example_committed =
     (ROWSET_ADD_TO_BINLOG_FAILED,
      example_committed
        \<lparr>rowsets := example_rowsets(1 := \<lparr>rowset_id = 1, version = (2, 2)\<rparr>),
         effects := [SaveRowsetMeta 0 (7, 7) 1, MakeVisible 1 (2, 2), AddToBinlog 1]\<rparr>) \<and>
   fst (delete_txn (Some 0) 1 100 5 1 (7, 7)
          (snd (publish_txn example_io_binlog_fails 0 1 100 5 1 (7, 7) (2, 2)
                  example_committed))) = TRANSACTION_ALREADY_COMMITTED"
proof -
  have p: "publish_txn example_io_binlog_fails 0 1 100 5 1 (7, 7) (2, 2) example_committed =
     (ROWSET_ADD_TO_BINLOG_FAILED,
      example_committed
        \<lparr>rowsets := example_rowsets(1 := \<lparr>rowset_id = 1, version = (2, 2)\<rparr>),
         effects := [SaveRowsetMeta 0 (7, 7) 1, MakeVisible 1 (2, 2), AddToBinlog 1]\<rparr>)"
    by (simp add: publish_txn_def make_visible_def example_defs ledger_defs Let_def)
  show ?thesis
    unfolding p by (simp add: delete_txn_def example_defs ledger_defs Let_def)
qed

section \<open>Properties of the compaction scheduler\<close>

subsection \<open>The last free slot of a data directory\<close>

lemmas scheduler_example_defs = example_config_def example_dir_def example_candidate_def
  example_find_best_def example_scheduler_def example_submit_io_def

text \<open>
  The tablets that a round returns: a directory contributes the tablet proposed for it
  when the slot check allows a pick, the directory has capacity left and the tablet has
  automatic compaction enabled.
\<close>

lemma generate_compaction_tasks_body_set:
  "set (fst (generate_compaction_tasks_body cfg find_best ct check cumu base d (acc, m))) =
     set acc \<union>
     {t. need_pick_tablet cfg ct cumu base d \<and> \<not> reach_capacity_limit d \<and>
         (\<exists>sc. find_best ct d (if ct = CUMULATIVE_COMPACTION then cumu (data_dir_id d)
                                else base (data_dir_id d)) = (Some t, sc)) \<and>
         \<not> disable_auto_compaction t}"
  by (auto simp: Let_def split: prod.splits option.splits)

lemma generate_compaction_tasks_fold_set:
  "set (fst (fold (generate_compaction_tasks_body cfg find_best ct check cumu base) dirs accm)) =
     set (fst accm) \<union>
     {t. \<exists>d \<in> set dirs. need_pick_tablet cfg ct cumu base d \<and> \<not> reach_capacity_limit d \<and>
          (\<exists>sc. find_best ct d (if ct = CUMULATIVE_COMPACTION then cumu (data_dir_id d)
                                 else base (data_dir_id d)) = (Some t, sc)) \<and>
          \<not> disable_auto_compaction t}"
proof (induction dirs arbitrary: accm)
  case Nil
  then show ?case by simp
next
  case (Cons d dirs)
  obtain acc m where accm: "accm = (acc, m)" by (cases accm)
  show ?case
    unfolding accm fold_simps Cons.IH generate_compaction_tasks_body_set by auto
qed

lemma generate_compaction_tasks_set:
  "set (generate_compaction_tasks cfg find_best ct dirs check e) =
     {t. \<exists>d \<in> set dirs.
          need_pick_tablet cfg ct (tablet_submitted_cumu_compaction e)
            (tablet_submitted_base_compaction e) d \<and>
          \<not> reach_capacity_limit d \<and>
          (\<exists>sc. find_best ct d
                   (if ct = CUMULATIVE_COMPACTION
                    then tablet_submitted_cumu_compaction e (data_dir_id d)
                    else tablet_submitted_base_compaction e (data_dir_id d)) = (Some t, sc)) \<and>
          \<not> disable_auto_compaction t}"
  by (simp add: generate_compaction_tasks_def generate_compaction_tasks_fold_set)

text \<open>
  Claim C1, as the code has it. For every data directory whose submitted cumulative plus
  base task count leaves exactly one free slot, a cumulative pick is allowed, and a base
  pick is allowed if and only if at least one cumulative task is submitted on that
  directory: without a running cumulative task the last slot is kept for cumulative
  compaction.
\<close>

theorem last_slot_pick:
  assumes "int (card (cumu (data_dir_id d)) + card (base (data_dir_id d))) =
             (if is_ssd_disk d then compaction_task_num_per_fast_disk cfg
              else compaction_task_num_per_disk cfg) - 1"
  shows "need_pick_tablet cfg CUMULATIVE_COMPACTION cumu base d \<and>
         (need_pick_tablet cfg BASE_COMPACTION cumu base d \<longleftrightarrow> cumu (data_dir_id d) \<noteq> {})"
  using assms by (simp add: need_pick_tablet_def Let_def)

text \<open>
  The scenario of the spec: slot count 2 and one cumulative task running. Both picks are
  allowed, and the cumulative round returns the proposed tablet.
\<close>

theorem last_slot_pick_witness:
  "int (card (tablet_submitted_cumu_compaction example_scheduler (data_dir_id example_dir)) +
        card (tablet_submitted_base_compaction example_scheduler (data_dir_id example_dir))) =
     (if is_ssd_disk example_dir then compaction_task_num_per_fast_disk example_config
      else compaction_task_num_per_disk example_config) - 1 \<and>
   need_pick_tablet example_config CUMULATIVE_COMPACTION
     (tablet_submitted_cumu_compaction example_scheduler)
     (tablet_submitted_base_compaction example_scheduler) example_dir \<and>
   need_pick_tablet example_config BASE_COMPACTION
     (tablet_submitted_cumu_compaction example_scheduler)
     (tablet_submitted_base_compaction example_scheduler) example_dir \<and>
   generate_compaction_tasks example_config example_find_best CUMULATIVE_COMPACTION
     [example_dir] False example_scheduler = [example_candidate]"
proof -
  have h: "int (card (tablet_submitted_cumu_compaction example_scheduler (data_dir_id example_dir)) +
        card (tablet_submitted_base_compaction example_scheduler (data_dir_id example_dir))) =
     (if is_ssd_disk example_dir then compaction_task_num_per_fast_disk example_config
      else compaction_task_num_per_disk example_config) - 1"
    by (simp add: scheduler_example_defs)
  have ne: "tablet_submitted_cumu_compaction example_scheduler (data_dir_id example_dir) \<noteq> {}"
    by (simp add: scheduler_example_defs)
  have g: "generate_compaction_tasks example_config example_find_best CUMULATIVE_COMPACTION
     [example_dir] False example_scheduler = [example_candidate]"
    by (simp add: generate_compaction_tasks_def need_pick_tablet_def scheduler_example_defs Let_def)
  show ?thesis
    using last_slot_pick[where cumu = "tablet_submitted_cumu_compaction example_scheduler"
        and base = "tablet_submitted_base_compaction example_scheduler"
        and d = example_dir and cfg = example_config, OF h] h ne g
    by simp
qed

text \<open>
  In the same scenario the base round returns the proposed tablet as well: the base pick
  on the last slot is accepted, not rejected.
\<close>

theorem last_slot_base_pick_counterexample:
  "compaction_task_num_per_disk example_config = 2 \<and>
   tablet_submitted_cumu_compaction example_scheduler (data_dir_id example_dir) = {10} \<and>
   tablet_submitted_base_compaction example_scheduler (data_dir_id example_dir) = {} \<and>
   need_pick_tablet example_config BASE_COMPACTION
     (tablet_submitted_cumu_compaction example_scheduler)
     (tablet_submitted_base_compaction example_scheduler) example_dir \<and>
   generate_compaction_tasks example_config example_find_best BASE_COMPACTION
     [example_dir] False example_scheduler = [example_candidate]"
  by (simp add: generate_compaction_tasks_def need_pick_tablet_def scheduler_example_defs Let_def)

subsection \<open>Permits requested and released by a submission\<close>

lemma permits_requested_append:
  "permits_requested (xs @ ys) = permits_requested xs @ permits_requested ys"
  by (induction xs rule: permits_requested.induct) simp_all

lemma permits_released_append:
  "permits_released (xs @ ys) = permits_released xs @ permits_released ys"
  by (induction xs rule: permits_released.induct) simp_all

lemma sched_log_simps [simp]:
  "sched_log (log_event ev e) = sched_log e @ [ev]"
  "sched_log (pop_tablet_from_submitted_compaction t ct e) = sched_log e"
  "sched_log (snd (push_tablet_into_submitted_compaction t ct e)) = sched_log e"
  by (simp_all add: log_event_def pop_tablet_from_submitted_compaction_def
      push_tablet_into_submitted_compaction_def Let_def split: CompactionType.splits)

text \<open>
  The permit calls of one complete run, from the call of \<open>_submit_compaction_task\<close> to
  the end of the closure when the pool accepted it: the permits are released once
  whenever the tablet was admitted and computed a positive amount, and requested once
  under the same conditions unless the submission is forced.
\<close>

lemma submit_and_run_log:
  "\<exists>evs. sched_log (submit_and_run io t ct force e) = sched_log e @ evs \<and>
         permits_requested evs =
           (if \<not> fst (push_tablet_into_submitted_compaction t ct e) \<and> io_prepare io = OK \<and>
               0 < io_permits io \<and> \<not> force
            then [io_permits io] else []) \<and>
         permits_released evs =
           (if \<not> fst (push_tablet_into_submitted_compaction t ct e) \<and> io_prepare io = OK \<and>
               0 < io_permits io
            then [io_permits io] else [])"
proof -
  obtain ex e1 where p: "push_tablet_into_submitted_compaction t ct e = (ex, e1)"
    by (cases "push_tablet_into_submitted_compaction t ct e")
  have l: "sched_log e1 = sched_log e"
    using sched_log_simps(3)[of t ct e] p by simp
  show ?thesis
    using p l
    by (cases ex) (simp_all add: submit_and_run_def submit_compaction_task_def Let_def)
qed

text \<open>A submission that is not forced releases exactly what it requested.\<close>

lemma submit_and_run_not_forced:
  "\<exists>evs. sched_log (submit_and_run io t ct False e) = sched_log e @ evs \<and>
         permits_released evs = permits_requested evs"
  using submit_and_run_log[of io t ct False e] by auto

text \<open>
  Claim C8. In every run of a submission the permit releases equal the permit requests,
  so that no path leaks a permit and no path releases a permit that was not requested.
  This holds for the submissions of the producer loop, which are not forced (the lemma
  above). A forced submission skips the request and keeps the release: on the example,
  with 5 permits computed and the task accepted and run, nothing is requested and 5
  permits are released.
\<close>

theorem forced_submission_releases_unrequested_permits:
  "permits_requested
     (sched_log (submit_and_run example_submit_io example_candidate CUMULATIVE_COMPACTION True
                   example_scheduler)) = [] \<and>
   permits_released
     (sched_log (submit_and_run example_submit_io example_candidate CUMULATIVE_COMPACTION True
                   example_scheduler)) = [5]"
  by (simp add: submit_and_run_def submit_compaction_task_def
      push_tablet_into_submitted_compaction_def pop_tablet_from_submitted_compaction_def
      log_event_def scheduler_example_defs Let_def)

end
